theory Spec2Isabelle
  imports Complex_Main "HOL-Library.Sublist"
begin

section \<open>Data model (base/types.ts)\<close>

text \<open>
  The interfaces of \<^verbatim>\<open>base/types.ts\<close>. TypeScript's \<^verbatim>\<open>number\<close> is read as
  \<open>int\<close> where the field counts scenes and as \<open>rat\<close> where it is a duration or a
  weight. The State Agent writes a \<^verbatim>\<open>themes\<close> property into every card it returns
  although the interface does not declare it, so the record carries it as an optional
  field (\<open>None\<close> when the property is absent). Where two interfaces have a property
  of the same name (\<^verbatim>\<open>id\<close>, \<^verbatim>\<open>description\<close>, \<^verbatim>\<open>premise\<close>, ...), the field
  carries the name of its interface in front.
\<close>

record Anchor =
  anchor_id :: string
  anchor_description :: string
  isUsed :: bool
  createdAtScene :: int

record StateCard =
  storySoFar :: string
  keyFacts :: "string list"
  anchors :: "Anchor list"
  themes :: "string list option"

datatype choice = A | B

datatype cue_type = music | sfx

datatype priority = low | medium | high

record AudioCue =
  cue_type :: cue_type
  trigger :: string
  description :: string
  timing :: "rat option"

record Scene =
  scene_id :: string
  episodeId :: string
  sceneNumber :: int
  narration :: string
  choiceA :: string
  choiceB :: string
  chosenOption :: "choice option"
  stateUpdate :: "(string \<times> string) list"
  audioCues :: "AudioCue list"
  createdAt :: string

subsection \<open>The Episode Bible\<close>

text \<open>The \<^verbatim>\<open>EpisodeBible\<close> interface, one record for each nested object. The three
  closed enumerations share the word \<^verbatim>\<open>moderate\<close>, so their constructors carry the
  name of the enumeration.\<close>

datatype pacing = pacing_fast | pacing_moderate | pacing_slow

datatype complexity = complexity_simple | complexity_moderate | complexity_complex

datatype intensity = subtle | moderate | dramatic

record WorldRules =
  genre :: string
  style :: string
  tone :: string
  setting :: string
  timeframe :: string
  coreConflict :: string
  worldLogic :: "string list"

record StorytellingGuidelines =
  narrativeVoice :: string
  pacing :: pacing
  complexity :: complexity
  atmosphereKeywords :: "string list"
  choicePhilosophy :: string
  sceneStructureNotes :: string

record CharacterFramework =
  protagonistTypes :: "string list"
  antagonistTypes :: "string list"
  supportingTypes :: "string list"
  characterVoiceGuidelines :: string

record ConflictPatterns =
  typicalConflicts :: "string list"
  escalationPattern :: string
  resolutionApproach :: string

record AudioDirection =
  musicStyle :: string
  commonSFXTypes :: "string list"
  audioIntensityRange :: intensity
  atmosphereNotes :: string

record StoryArcGuidance =
  expectedProgression :: string
  keyFactTypes :: "string list"
  likelyAnchorTypes :: "string list"
  finaleExpectation :: string

record EpisodeBible =
  worldRules :: WorldRules
  storytellingGuidelines :: StorytellingGuidelines
  characterFramework :: CharacterFramework
  conflictPatterns :: ConflictPatterns
  audioDirection :: AudioDirection
  storyArcGuidance :: StoryArcGuidance
  consistencyRules :: "string list"
  reasoning :: string

subsection \<open>Errors\<close>

text \<open>Everything the code throws or a collaborator rejects with. \<open>Error\<close> is a plain
  JavaScript \<^verbatim>\<open>Error\<close> with its message, \<open>TypeError p\<close> the
  \<^verbatim>\<open>TypeError\<close> of reading the property \<open>p\<close> of \<^verbatim>\<open>undefined\<close>,
  \<open>SchemaValidationFailure\<close> the structured-generation client
  refusing a response that does not conform to the schema it was given, and
  \<open>ProviderFailure\<close> any other failure of an external provider.\<close>

datatype error =
    Error string
  | TypeError string
  | SchemaValidationFailure
  | ProviderFailure string

section \<open>State Agent: local operations (class StateAgent)\<close>

text \<open>
  \<^verbatim>\<open>markAnchorAsUsed\<close> maps over the anchors and sets the flag of every anchor whose
  id is the given one; the card is rebuilt with a spread.
\<close>

definition markAnchorAsUsed :: "StateCard \<Rightarrow> string \<Rightarrow> StateCard" where
  "markAnchorAsUsed stateCard anchorId =
     stateCard\<lparr>anchors :=
       map (\<lambda>anchor. if anchor_id anchor = anchorId then anchor\<lparr>isUsed := True\<rparr> else anchor)
           (anchors stateCard)\<rparr>"

text \<open>
  JavaScript's \<^verbatim>\<open>xs.slice(-k)\<close> for a positive \<open>k\<close>: the last \<open>k\<close> elements, or the
  whole array when it is shorter.
\<close>

definition slice_last :: "nat \<Rightarrow> 'a list \<Rightarrow> 'a list" where
  "slice_last k xs = drop (length xs - k) xs"

text \<open>The two literals of \<^verbatim>\<open>cleanupStateCard\<close>: the age from which an unused anchor
  is dropped, and the number of key facts kept.\<close>

definition maxAgeScenes :: int where
  "maxAgeScenes = 8"

definition keyFactsCap :: nat where
  "keyFactsCap = 10"

definition cleanupStateCard :: "StateCard \<Rightarrow> int \<Rightarrow> StateCard" where
  "cleanupStateCard stateCard currentSceneNumber =
     (let cleanedAnchors =
            filter (\<lambda>anchor.
                      let sceneAge = currentSceneNumber - createdAtScene anchor
                      in isUsed anchor \<or> sceneAge < maxAgeScenes)
                   (anchors stateCard);
          recentKeyFacts = slice_last keyFactsCap (keyFacts stateCard)
      in stateCard\<lparr>keyFacts := recentKeyFacts, themes := Some [], anchors := cleanedAnchors\<rparr>)"

section \<open>Orchestrator: state projection (class EpisodeOrchestrator)\<close>

definition projectStateForChoice :: "StateCard \<Rightarrow> Scene \<Rightarrow> choice \<Rightarrow> StateCard" where
  "projectStateForChoice stateCard scene c =
     (let choiceText = (if c = A then choiceA scene else choiceB scene)
      in stateCard\<lparr>storySoFar := storySoFar stateCard @ '' '' @ choiceText,
                    keyFacts := keyFacts stateCard @ [''Chose: '' @ choiceText]\<rparr>)"

subsection \<open>Cards as objects in a store\<close>

text \<open>
  A JavaScript object literal allocates a new object. To say that an operation leaves the
  card it was given as it was, cards live in a store (addresses are positions), an
  operation reads the card at its argument's address and the literal it returns is
  allocated at a fresh address. Neither function contains an assignment to a property or
  an array method that writes, so nothing else in the store changes.
\<close>

type_synonym card_store = "StateCard list"

definition alloc_card :: "card_store \<Rightarrow> StateCard \<Rightarrow> nat \<times> card_store" where
  "alloc_card store sc = (length store, store @ [sc])"

definition projectStateForChoice_at ::
  "card_store \<Rightarrow> nat \<Rightarrow> Scene \<Rightarrow> choice \<Rightarrow> (nat \<times> card_store) option" where
  "projectStateForChoice_at store r scene c =
     (if r < length store
      then Some (alloc_card store (projectStateForChoice (store ! r) scene c))
      else None)"

definition cleanupStateCard_at ::
  "card_store \<Rightarrow> nat \<Rightarrow> int \<Rightarrow> (nat \<times> card_store) option" where
  "cleanupStateCard_at store r currentSceneNumber =
     (if r < length store
      then Some (alloc_card store (cleanupStateCard (store ! r) currentSceneNumber))
      else None)"

section \<open>Structured generation client\<close>

text \<open>
  Every agent calls \<^verbatim>\<open>generateObject\<close> of the \<^verbatim>\<open>ai\<close> package with a zod schema,
  instructions and a prompt. The external provider answers or fails; the client parses
  the answer with the schema and rejects when it does not conform. The provider's answer
  to the call is the parameter \<open>response\<close>; a schema is its parse function, \<open>None\<close>
  where a constraint is violated and otherwise the parsed object, defaults filled in.
  What TypeScript's types already fix (strings, booleans, closed enumerations, required
  properties) is fixed by the type of the response.
\<close>

definition generateObject :: "('raw \<Rightarrow> 'obj option) \<Rightarrow> error + 'raw \<Rightarrow> error + 'obj" where
  "generateObject schema response =
     (case response of
        Inl e \<Rightarrow> Inl e
      | Inr raw \<Rightarrow>
          (case schema raw of
             None \<Rightarrow> Inl SchemaValidationFailure
           | Some obj \<Rightarrow> Inr obj))"

section \<open>Music Agent (class MusicAgent)\<close>

record MusicTrack =
  track_prompt :: string
  track_duration :: rat
  track_isInstrumental :: bool
  track_priority :: priority
  track_trigger :: string
  track_description :: string

text \<open>\<^verbatim>\<open>MusicTrackSchema\<close>: the only constraint beyond the types is
  \<^verbatim>\<open>duration: z.number().min(10000).max(300000)\<close>.\<close>

definition MusicTrackSchema :: "MusicTrack \<Rightarrow> MusicTrack option" where
  "MusicTrackSchema t =
     (if 10000 \<le> track_duration t \<and> track_duration t \<le> 300000 then Some t else None)"

record MusicMetadata =
  elevenLabsPrompt :: string
  durationMs :: rat
  isInstrumental :: bool
  music_priority :: priority
  music_agent :: string
  music_sceneNumber :: int
  estimatedDurationSeconds :: rat

record MusicCue = AudioCue +
  music_metadata :: MusicMetadata

text \<open>
  \<^verbatim>\<open>generateSceneMusic\<close>. The Bible and the narration only enter the instructions
  and the prompt sent to the provider; the cue is built from the parsed track, the scene
  number and the estimated duration (180 seconds when the caller passes none).
\<close>

definition generateSceneMusic ::
  "EpisodeBible \<Rightarrow> string \<Rightarrow> int \<Rightarrow> rat \<Rightarrow> error + MusicTrack \<Rightarrow> error + MusicCue" where
  "generateSceneMusic episodeBible narr sceneNo estimatedSeconds response =
     (case generateObject MusicTrackSchema response of
        Inl e \<Rightarrow> Inl e
      | Inr track \<Rightarrow>
          Inr \<lparr>cue_type = music,
               trigger = track_trigger track,
               description = track_description track,
               timing = Some 0,
               music_metadata =
                 \<lparr>elevenLabsPrompt = track_prompt track,
                  durationMs = track_duration track,
                  isInstrumental = track_isInstrumental track,
                  music_priority = track_priority track,
                  music_agent = ''MusicAgent'',
                  music_sceneNumber = sceneNo,
                  estimatedDurationSeconds = estimatedSeconds\<rparr>\<rparr>)"

text \<open>JavaScript's \<^verbatim>\<open>text.includes(pattern)\<close>, which is what the test's
  \<^verbatim>\<open>toContain\<close> checks on a string, and the marker the test looks for.\<close>

fun str_includes :: "string \<Rightarrow> string \<Rightarrow> bool" where
  "str_includes [] pat = (pat = [])"
| "str_includes (c # cs) pat = (prefix pat (c # cs) \<or> str_includes cs pat)"

definition instrumental_marker :: string where
  "instrumental_marker = ''instrumental only''"

section \<open>SFX Agent (class SFXAgent)\<close>

datatype sfx_category = simple | complex | musical | ambient | impact | one_shot

text \<open>One element of \<^verbatim>\<open>soundEffects\<close> as the provider sends it: the duration may be
  missing or null, the prompt influence and the loop flag may be missing.\<close>

record SoundEffectResponse =
  r_text :: string
  r_trigger :: string
  r_durationSeconds :: "rat option"
  r_promptInfluence :: "rat option"
  r_loop :: "bool option"
  r_timing :: rat
  r_priority :: priority
  r_category :: sfx_category

text \<open>The same element after parsing: \<^verbatim>\<open>promptInfluence\<close> defaults to 0.3 and
  \<^verbatim>\<open>loop\<close> to false.\<close>

record SoundEffect =
  fx_text :: string
  fx_trigger :: string
  fx_durationSeconds :: "rat option"
  fx_promptInfluence :: rat
  fx_loop :: bool
  fx_timing :: rat
  fx_priority :: priority
  fx_category :: sfx_category

definition soundEffect_ok :: "SoundEffectResponse \<Rightarrow> bool" where
  "soundEffect_ok r =
     ((case r_durationSeconds r of None \<Rightarrow> True | Some d \<Rightarrow> 1 / 2 \<le> d \<and> d \<le> 30)
      \<and> (case r_promptInfluence r of None \<Rightarrow> True | Some p \<Rightarrow> 0 \<le> p \<and> p \<le> 1))"

definition soundEffect_parse :: "SoundEffectResponse \<Rightarrow> SoundEffect" where
  "soundEffect_parse r =
     \<lparr>fx_text = r_text r,
      fx_trigger = r_trigger r,
      fx_durationSeconds = r_durationSeconds r,
      fx_promptInfluence = (case r_promptInfluence r of None \<Rightarrow> 3 / 10 | Some p \<Rightarrow> p),
      fx_loop = (case r_loop r of None \<Rightarrow> False | Some l \<Rightarrow> l),
      fx_timing = r_timing r,
      fx_priority = r_priority r,
      fx_category = r_category r\<rparr>"

text \<open>\<^verbatim>\<open>SFXSchema\<close>: an array of at most 8 such elements.\<close>

definition SFXSchema :: "SoundEffectResponse list \<Rightarrow> SoundEffect list option" where
  "SFXSchema rs =
     (if length rs \<le> 8 \<and> list_all soundEffect_ok rs
      then Some (map soundEffect_parse rs) else None)"

record SFXMetadata =
  elevenLabsText :: string
  durationSeconds :: "rat option"
  promptInfluence :: rat
  loop :: bool
  sfx_priority :: priority
  category :: sfx_category
  sfx_agent :: string
  sfx_sceneNumber :: "int option"
  isAmbient :: "bool option"

record SFXCue = AudioCue +
  sfx_metadata :: SFXMetadata

definition generateSceneSFX ::
  "EpisodeBible \<Rightarrow> string \<Rightarrow> int \<Rightarrow> error + SoundEffectResponse list \<Rightarrow> error + SFXCue list" where
  "generateSceneSFX episodeBible narr sceneNo response =
     (case generateObject SFXSchema response of
        Inl e \<Rightarrow> Inl e
      | Inr soundEffects \<Rightarrow>
          Inr (map (\<lambda>fx.
                 \<lparr>cue_type = sfx,
                  trigger = fx_trigger fx,
                  description = fx_text fx,
                  timing = Some (fx_timing fx),
                  sfx_metadata =
                    \<lparr>elevenLabsText = fx_text fx,
                     durationSeconds = fx_durationSeconds fx,
                     promptInfluence = fx_promptInfluence fx,
                     loop = fx_loop fx,
                     sfx_priority = fx_priority fx,
                     category = fx_category fx,
                     sfx_agent = ''SFXAgent'',
                     sfx_sceneNumber = Some sceneNo,
                     isAmbient = None\<rparr>\<rparr>)
               soundEffects))"

text \<open>The schema of \<^verbatim>\<open>generateAmbientSoundscape\<close>: a duration of 15 to 30 seconds and
  a prompt influence in [0, 1] that defaults to 0.2.\<close>

record AmbientSoundResponse =
  amb_r_text :: string
  amb_r_durationSeconds :: rat
  amb_r_promptInfluence :: "rat option"

record AmbientSound =
  amb_text :: string
  amb_durationSeconds :: rat
  amb_promptInfluence :: rat

definition AmbientSchema :: "AmbientSoundResponse \<Rightarrow> AmbientSound option" where
  "AmbientSchema r =
     (if 15 \<le> amb_r_durationSeconds r \<and> amb_r_durationSeconds r \<le> 30
         \<and> (case amb_r_promptInfluence r of None \<Rightarrow> True | Some p \<Rightarrow> 0 \<le> p \<and> p \<le> 1)
      then Some \<lparr>amb_text = amb_r_text r,
                 amb_durationSeconds = amb_r_durationSeconds r,
                 amb_promptInfluence =
                   (case amb_r_promptInfluence r of None \<Rightarrow> 2 / 10 | Some p \<Rightarrow> p)\<rparr>
      else None)"

definition generateAmbientSoundscape ::
  "EpisodeBible \<Rightarrow> string \<Rightarrow> string \<Rightarrow> error + AmbientSoundResponse \<Rightarrow> error + SFXCue" where
  "generateAmbientSoundscape episodeBible sceneLocation sceneAtmosphere response =
     (case generateObject AmbientSchema response of
        Inl e \<Rightarrow> Inl e
      | Inr ambientSound \<Rightarrow>
          Inr \<lparr>cue_type = sfx,
               trigger = ''[SFX=ambient_background]'',
               description = amb_text ambientSound,
               timing = Some 0,
               sfx_metadata =
                 \<lparr>elevenLabsText = amb_text ambientSound,
                  durationSeconds = Some (amb_durationSeconds ambientSound),
                  promptInfluence = amb_promptInfluence ambientSound,
                  loop = True,
                  sfx_priority = low,
                  category = ambient,
                  sfx_agent = ''SFXAgent'',
                  sfx_sceneNumber = None,
                  isAmbient = Some True\<rparr>\<rparr>)"

section \<open>State Agent: generated cards (class StateAgent)\<close>

text \<open>
  The schema of \<^verbatim>\<open>updateStateCard\<close>: summary, key facts, anchors and a reasoning
  string, all required and none constrained, so its parse accepts every response of the
  right shape. The returned card takes summary, facts and anchors from the generated
  object; the current card, the scene and the choice only enter the prompt.
\<close>

record StateUpdateResponse =
  upd_storySoFar :: string
  upd_keyFacts :: "string list"
  upd_anchors :: "Anchor list"
  upd_reasoning :: string

definition updateStateCard ::
  "StateCard \<Rightarrow> Scene \<Rightarrow> choice \<Rightarrow> Scene list \<Rightarrow> error + StateUpdateResponse
     \<Rightarrow> error + StateCard" where
  "updateStateCard currentStateCard newScene chosen allPreviousScenes response =
     (case generateObject Some response of
        Inl e \<Rightarrow> Inl e
      | Inr updatedStateCard \<Rightarrow>
          Inr \<lparr>storySoFar = upd_storySoFar updatedStateCard,
               keyFacts = upd_keyFacts updatedStateCard,
               anchors = upd_anchors updatedStateCard,
               themes = Some []\<rparr>)"

text \<open>The schema of \<^verbatim>\<open>initializeStateCard\<close>: an anchor's \<^verbatim>\<open>isUsed\<close> defaults to
  false and its \<^verbatim>\<open>createdAtScene\<close> to 0 when the response leaves them out.\<close>

record InitialAnchorResponse =
  init_id :: string
  init_description :: string
  init_isUsed :: "bool option"
  init_createdAtScene :: "int option"

record InitialStateResponse =
  init_storySoFar :: string
  init_keyFacts :: "string list"
  init_anchors :: "InitialAnchorResponse list"

definition initialAnchor_parse :: "InitialAnchorResponse \<Rightarrow> Anchor" where
  "initialAnchor_parse r =
     \<lparr>anchor_id = init_id r,
      anchor_description = init_description r,
      isUsed = (case init_isUsed r of None \<Rightarrow> False | Some u \<Rightarrow> u),
      createdAtScene = (case init_createdAtScene r of None \<Rightarrow> 0 | Some n \<Rightarrow> n)\<rparr>"

definition initializeStateCard :: "string \<Rightarrow> error + InitialStateResponse \<Rightarrow> error + StateCard" where
  "initializeStateCard premise response =
     (case generateObject Some response of
        Inl e \<Rightarrow> Inl e
      | Inr initialState \<Rightarrow>
          Inr \<lparr>storySoFar = init_storySoFar initialState,
               keyFacts = init_keyFacts initialState,
               anchors = map initialAnchor_parse (init_anchors initialState),
               themes = Some []\<rparr>)"

subsection \<open>Sequences of the local operations\<close>

text \<open>The two operations that work on a card without a generation call, and a card
  taken through a sequence of them.\<close>

datatype tracker_op = MarkAnchorUsed string | Cleanup int

fun apply_op :: "StateCard \<Rightarrow> tracker_op \<Rightarrow> StateCard" where
  "apply_op stateCard (MarkAnchorUsed anchorId) = markAnchorAsUsed stateCard anchorId"
| "apply_op stateCard (Cleanup currentSceneNumber) = cleanupStateCard stateCard currentSceneNumber"

definition run_ops :: "StateCard \<Rightarrow> tracker_op list \<Rightarrow> StateCard" where
  "run_ops stateCard ops = foldl apply_op stateCard ops"

section \<open>Scene Planner (class ScenePlannerAgent)\<close>

datatype callback_type = item | character | promise | mystery | none

text \<open>What \<^verbatim>\<open>ContinuityAgent.analyzeCallbacks\<close> returns.\<close>

record CallbackSuggestion =
  shouldUseCallback :: bool
  suggestedAnchor :: "Anchor option"
  callbackType :: callback_type
  reason :: string
  integration :: "string option"

text \<open>What \<^verbatim>\<open>generateScene\<close> returns. The planner's audio cues carry four more
  properties (priority, duration, intensity, audioDirection) that the orchestrator never
  reads; the record keeps the properties of the \<^verbatim>\<open>AudioCue\<close> interface.\<close>

record SceneData =
  sd_narration :: string
  sd_choiceA :: string
  sd_choiceB :: string
  sd_stateUpdate :: "(string \<times> string) list"
  sd_audioCues :: "AudioCue list"

text \<open>
  TypeScript's types are erased when the code runs, and the orchestrator passes values to
  \<^verbatim>\<open>generateScene\<close> by position. An argument is therefore one of the values the
  callers pass, and a call is the five parameters of
  \<^verbatim>\<open>generateScene(premise, episodeBible, stateCard, sceneNumber, callbackSuggestion?)\<close>
  with the value each one received.
\<close>

datatype js_arg =
    Bible EpisodeBible
  | Card StateCard
  | Num int
  | Suggestion CallbackSuggestion
  | Undefined

record PlannerCall =
  call_premise :: string
  call_episodeBible :: js_arg
  call_stateCard :: js_arg
  call_sceneNumber :: js_arg
  call_callbackSuggestion :: js_arg

text \<open>
  \<^verbatim>\<open>generateScene\<close> builds its prompt before it calls the provider. The prompt reads
  \<^verbatim>\<open>stateCard.storySoFar\<close>, \<^verbatim>\<open>stateCard.keyFacts.join(', ')\<close> and
  \<^verbatim>\<open>stateCard.anchors.filter(...)\<close>: on \<^verbatim>\<open>undefined\<close> the first read throws, and on
  any value without a \<^verbatim>\<open>keyFacts\<close> property the call of \<^verbatim>\<open>join\<close> does. The other
  parameters are only printed (\<^verbatim>\<open>JSON.stringify\<close>, template holes, \<^verbatim>\<open>?.\<close>), which
  never throws. The schema constrains nothing beyond the types.
\<close>

definition generateScene :: "PlannerCall \<Rightarrow> error + SceneData \<Rightarrow> error + SceneData" where
  "generateScene call response =
     (case call_stateCard call of
        Card stateCard \<Rightarrow> generateObject Some response
      | Undefined \<Rightarrow> Inl (TypeError ''storySoFar'')
      | _ \<Rightarrow> Inl (TypeError ''join''))"

section \<open>Episode Orchestrator (class EpisodeOrchestrator)\<close>

subsection \<open>Fields and collaborators\<close>

record Window =
  current :: "Scene option"
  optionA :: "Scene option"
  optionB :: "Scene option"

record Orchestrator =
  episodeBible :: "EpisodeBible option"
  scenarioWindow :: Window

text \<open>The three private helpers around the \<^verbatim>\<open>episodeBible\<close> field. The class defines
  them; no method of it calls \<^verbatim>\<open>hasEpisodeBible\<close> or \<^verbatim>\<open>getEpisodeBible\<close>.\<close>

definition hasEpisodeBible :: "Orchestrator \<Rightarrow> bool" where
  "hasEpisodeBible orch = (episodeBible orch \<noteq> None)"

definition storeEpisodeBible :: "Orchestrator \<Rightarrow> EpisodeBible \<Rightarrow> Orchestrator" where
  "storeEpisodeBible orch bible = orch\<lparr>episodeBible := Some bible\<rparr>"

definition getEpisodeBible :: "Orchestrator \<Rightarrow> error + EpisodeBible" where
  "getEpisodeBible orch =
     (case episodeBible orch of
        None \<Rightarrow> Inl (Error ''Episode Bible not available. Must create Episode Bible before generating scenes.'')
      | Some bible \<Rightarrow> Inr bible)"

text \<open>
  The worker agents are fields of the orchestrator; each method of theirs that the
  orchestrator calls is a round trip to the generation provider that returns or rejects.
  They are taken as functions, so that a statement about the orchestrator holds
  for every behaviour of the workers.
\<close>

record Agents =
  storyDirector_createEpisodeBible :: "string \<Rightarrow> error + EpisodeBible"
  stateAgent_initializeStateCard :: "string \<Rightarrow> error + StateCard"
  stateAgent_updateStateCard :: "StateCard \<Rightarrow> Scene \<Rightarrow> choice \<Rightarrow> Scene list \<Rightarrow> error + StateCard"
  scenePlanner_generateScene :: "PlannerCall \<Rightarrow> error + SceneData"
  continuityAgent_analyzeCallbacks :: "StateCard \<Rightarrow> string \<Rightarrow> error + CallbackSuggestion"

text \<open>\<^verbatim>\<open>Date.now()\<close> printed in decimal and \<^verbatim>\<open>new Date().toISOString()\<close>, as read at
  one moment.\<close>

record Clock =
  now_ms :: string
  now_iso :: string

subsection \<open>Speculative child generation\<close>

definition choice_letter :: "choice \<Rightarrow> string" where
  "choice_letter c = (case c of A \<Rightarrow> ''A'' | B \<Rightarrow> ''B'')"

text \<open>
  The call \<^verbatim>\<open>coordinateChildScenario\<close> makes:
  \<^verbatim>\<open>this.scenePlanner.generateScene(premise, projectedStateCard,
  parentScene.sceneNumber + 1, callbackSuggestion.shouldUseCallback ? callbackSuggestion :
  undefined)\<close>. Four values are passed; the parameters receive them in order and the
  fifth is left undefined.
\<close>

definition childScenarioCall ::
  "string \<Rightarrow> StateCard \<Rightarrow> Scene \<Rightarrow> choice \<Rightarrow> CallbackSuggestion \<Rightarrow> PlannerCall" where
  "childScenarioCall premise stateCard parentScene c callbackSuggestion =
     (let projectedStateCard = projectStateForChoice stateCard parentScene c
      in \<lparr>call_premise = premise,
          call_episodeBible = Card projectedStateCard,
          call_stateCard = Num (sceneNumber parentScene + 1),
          call_sceneNumber =
            (if shouldUseCallback callbackSuggestion then Suggestion callbackSuggestion
             else Undefined),
          call_callbackSuggestion = Undefined\<rparr>)"

definition coordinateChildScenario ::
  "Agents \<Rightarrow> Clock \<Rightarrow> string \<Rightarrow> StateCard \<Rightarrow> Scene \<Rightarrow> choice \<Rightarrow> CallbackSuggestion
     \<Rightarrow> error + Scene" where
  "coordinateChildScenario agents clock premise stateCard parentScene c callbackSuggestion =
     (case scenePlanner_generateScene agents
             (childScenarioCall premise stateCard parentScene c callbackSuggestion) of
        Inl e \<Rightarrow> Inl e
      | Inr sceneData \<Rightarrow>
          Inr \<lparr>scene_id = ''temp_'' @ scene_id parentScene @ ''_'' @ choice_letter c
                           @ ''_'' @ now_ms clock,
               episodeId = episodeId parentScene,
               sceneNumber = sceneNumber parentScene + 1,
               narration = sd_narration sceneData,
               choiceA = sd_choiceA sceneData,
               choiceB = sd_choiceB sceneData,
               chosenOption = None,
               stateUpdate = sd_stateUpdate sceneData,
               audioCues = sd_audioCues sceneData,
               createdAt = now_iso clock\<rparr>)"

text \<open>
  \<^verbatim>\<open>Promise.all\<close> on two promises fulfils with both values when both fulfil and
  rejects as soon as one rejects. When both reject, the rejection reported is the one
  that settled first; the definition reports the first in order, and no statement below
  depends on which it is.
\<close>

definition promise_all2 :: "error + 'a \<Rightarrow> error + 'b \<Rightarrow> error + 'a \<times> 'b" where
  "promise_all2 p q =
     (case p of
        Inl e \<Rightarrow> Inl e
      | Inr a \<Rightarrow> (case q of Inl e \<Rightarrow> Inl e | Inr b \<Rightarrow> Inr (a, b)))"

text \<open>
  \<^verbatim>\<open>coordinateChildGeneration\<close>. A method that throws leaves the fields as they were
  when it threw, so every operation of the orchestrator returns the orchestrator next to
  its result or error.
\<close>

definition upcomingContext :: "Scene \<Rightarrow> string" where
  "upcomingContext parentScene =
     ''Following choice A: '' @ choiceA parentScene @ '' or choice B: '' @ choiceB parentScene"

definition coordinateChildGeneration ::
  "Agents \<Rightarrow> (choice \<Rightarrow> Clock) \<Rightarrow> Orchestrator \<Rightarrow> string \<Rightarrow> StateCard \<Rightarrow> Scene
     \<Rightarrow> (error + unit) \<times> Orchestrator" where
  "coordinateChildGeneration agents clocks orch premise stateCard parentScene =
     (case continuityAgent_analyzeCallbacks agents stateCard (upcomingContext parentScene) of
        Inl e \<Rightarrow> (Inl e, orch)
      | Inr callbackSuggestion \<Rightarrow>
          (case promise_all2
                  (coordinateChildScenario agents (clocks A) premise stateCard parentScene A
                     callbackSuggestion)
                  (coordinateChildScenario agents (clocks B) premise stateCard parentScene B
                     callbackSuggestion) of
             Inl e \<Rightarrow> (Inl e, orch)
           | Inr (optionAScene, optionBScene) \<Rightarrow>
               (Inr (),
                orch\<lparr>scenarioWindow :=
                       (scenarioWindow orch)\<lparr>optionA := Some optionAScene,
                                              optionB := Some optionBScene\<rparr>\<rparr>)))"

section \<open>Database tools (createEpisodeTools, createEpisodeBibleTools)\<close>

subsection \<open>Tables\<close>

text \<open>
  The tools talk to two tables that matter here. A row of \<^verbatim>\<open>episodes\<close> has the fields
  of the \<^verbatim>\<open>Episode\<close> interface under snake-case names; a row of
  \<^verbatim>\<open>episode_bibles\<close> has its own id, the episode's id and one group of columns for
  each part of the Bible, written by \<^verbatim>\<open>saveEpisodeBible\<close> and read back by
  \<^verbatim>\<open>loadEpisodeBible\<close> column by column. The schema file declares the id as primary
  key, \<^verbatim>\<open>episode_id\<close> as a reference to \<^verbatim>\<open>episodes(id)\<close>, and a unique index on
  \<^verbatim>\<open>episode_id\<close>.
\<close>

datatype episode_status = active | completed | abandoned

record Episode =
  ep_id :: string
  accountId :: string
  createdBy :: string
  title :: string
  ep_premise :: string
  ep_stateCard :: StateCard
  status :: episode_status
  ep_createdAt :: string
  completedAt :: "string option"
  totalScenes :: int
  totalChoices :: int

record BibleRow =
  row_id :: string
  row_episode_id :: string
  row_world :: WorldRules
  row_storytelling :: StorytellingGuidelines
  row_character :: CharacterFramework
  row_conflict :: ConflictPatterns
  row_audio :: AudioDirection
  row_story :: StoryArcGuidance
  row_consistency_rules :: "string list"
  row_reasoning :: string

record Database =
  episodes :: "Episode list"
  episode_bibles :: "BibleRow list"

datatype db_error = PGRST116 | UniqueViolation | ForeignKeyViolation

text \<open>\<^verbatim>\<open>.single()\<close>: the one row selected, or the error \<^verbatim>\<open>PGRST116\<close> when the
  selection has no row or several.\<close>

definition select_single :: "'a list \<Rightarrow> db_error + 'a" where
  "select_single rows = (case rows of [r] \<Rightarrow> Inr r | _ \<Rightarrow> Inl PGRST116)"

text \<open>
  \<^verbatim>\<open>.upsert(dbData)\<close> without \<^verbatim>\<open>onConflict\<close> is an insert that turns into an update
  of the row with the same primary key. \<^verbatim>\<open>dbData\<close> has no id, so the row gets the id
  the database generates, here the \<open>row_id\<close> of the row given. The insert, or the
  update, is refused when the episode does not exist or when another row already has the
  same \<^verbatim>\<open>episode_id\<close>.
\<close>

definition upsert_episode_bible :: "Database \<Rightarrow> BibleRow \<Rightarrow> db_error + BibleRow \<times> Database" where
  "upsert_episode_bible db row =
     (if \<not> list_ex (\<lambda>e. ep_id e = row_episode_id row) (episodes db)
      then Inl ForeignKeyViolation
      else if list_ex (\<lambda>r. row_id r \<noteq> row_id row \<and> row_episode_id r = row_episode_id row)
                      (episode_bibles db)
      then Inl UniqueViolation
      else if list_ex (\<lambda>r. row_id r = row_id row) (episode_bibles db)
      then Inr (row, db\<lparr>episode_bibles :=
                         map (\<lambda>r. if row_id r = row_id row then row else r) (episode_bibles db)\<rparr>)
      else Inr (row, db\<lparr>episode_bibles := episode_bibles db @ [row]\<rparr>))"

subsection \<open>Tool results\<close>

text \<open>
  The object a tool's \<^verbatim>\<open>execute\<close> returns, by the properties the orchestrator
  reads from it: \<open>Failure\<close> is \<^verbatim>\<open>{success: false, error}\<close>, every other
  result has \<^verbatim>\<open>success: true\<close>. \<^verbatim>\<open>result.toolCalls\<close> is taken to list the calls of
  the run in order, each with the result of its \<^verbatim>\<open>execute\<close>, which is what
  \<^verbatim>\<open>extractToolResult\<close> presumes; a call whose \<^verbatim>\<open>execute\<close> threw has no result.
  The \<^verbatim>\<open>ai\<close> package lists the results under \<^verbatim>\<open>result.toolResults\<close>: where the
  entries of \<^verbatim>\<open>result.toolCalls\<close> carry none, every extraction is \<^verbatim>\<open>undefined\<close> and
  both operations throw at their first check of a result. The statements about the two
  operations are about the state the \<^verbatim>\<open>generateText\<close> call leaves and about runs that
  throw, before a result is read or after.
\<close>

datatype tool_result =
    DirectorResult EpisodeBible
  | StateResult StateCard
  | StateUpdateResult StateCard
  | SceneResult SceneData
  | EpisodeResult Episode
  | SceneSaved string
  | BibleLoaded "EpisodeBible option"
  | BibleSaved string
  | BibleExists bool
  | Failure
  | OtherSuccess

record ToolCall =
  toolName :: string
  result :: "tool_result option"

text \<open>\<^verbatim>\<open>r?.success\<close> as a condition, and the properties read after it.\<close>

fun success :: "tool_result option \<Rightarrow> bool" where
  "success None = False"
| "success (Some Failure) = False"
| "success (Some r) = True"

fun res_stateCard :: "tool_result \<Rightarrow> StateCard option" where
  "res_stateCard (StateResult sc) = Some sc"
| "res_stateCard r = None"

fun res_updatedStateCard :: "tool_result \<Rightarrow> StateCard option" where
  "res_updatedStateCard (StateUpdateResult sc) = Some sc"
| "res_updatedStateCard r = None"

fun res_sceneData :: "tool_result \<Rightarrow> SceneData option" where
  "res_sceneData (SceneResult sd) = Some sd"
| "res_sceneData r = None"

fun res_episode :: "tool_result \<Rightarrow> Episode option" where
  "res_episode (EpisodeResult e) = Some e"
| "res_episode r = None"

fun res_sceneId :: "tool_result \<Rightarrow> string option" where
  "res_sceneId (SceneSaved i) = Some i"
| "res_sceneId r = None"

definition extractToolResult :: "ToolCall list \<Rightarrow> string \<Rightarrow> tool_result option" where
  "extractToolResult toolCalls name =
     (case find (\<lambda>call. toolName call = name) toolCalls of
        None \<Rightarrow> None
      | Some call \<Rightarrow> result call)"

subsection \<open>Episode Bible tools\<close>

definition bible_to_row :: "string \<Rightarrow> string \<Rightarrow> EpisodeBible \<Rightarrow> BibleRow" where
  "bible_to_row new_id episode_id bible =
     \<lparr>row_id = new_id,
      row_episode_id = episode_id,
      row_world = worldRules bible,
      row_storytelling = storytellingGuidelines bible,
      row_character = characterFramework bible,
      row_conflict = conflictPatterns bible,
      row_audio = audioDirection bible,
      row_story = storyArcGuidance bible,
      row_consistency_rules = consistencyRules bible,
      row_reasoning = reasoning bible\<rparr>"

definition row_to_bible :: "BibleRow \<Rightarrow> EpisodeBible" where
  "row_to_bible data =
     \<lparr>worldRules = row_world data,
      storytellingGuidelines = row_storytelling data,
      characterFramework = row_character data,
      conflictPatterns = row_conflict data,
      audioDirection = row_audio data,
      storyArcGuidance = row_story data,
      consistencyRules = row_consistency_rules data,
      reasoning = row_reasoning data\<rparr>"

text \<open>\<^verbatim>\<open>saveEpisodeBible\<close>: the upsert, with every error caught and returned as a
  failure. It does not look for an existing row first.\<close>

definition saveEpisodeBible :: "Database \<Rightarrow> string \<Rightarrow> EpisodeBible \<Rightarrow> string \<Rightarrow> tool_result \<times> Database" where
  "saveEpisodeBible db episode_id bible new_id =
     (case upsert_episode_bible db (bible_to_row new_id episode_id bible) of
        Inl err \<Rightarrow> (Failure, db)
      | Inr (data, db') \<Rightarrow> (BibleSaved (row_id data), db'))"

text \<open>\<^verbatim>\<open>loadEpisodeBible\<close> and \<^verbatim>\<open>checkEpisodeBibleExists\<close> select by
  \<^verbatim>\<open>episode_id\<close> with \<^verbatim>\<open>.single()\<close> and treat \<^verbatim>\<open>PGRST116\<close> as "no Bible".\<close>

definition loadEpisodeBible :: "Database \<Rightarrow> string \<Rightarrow> tool_result" where
  "loadEpisodeBible db episode_id =
     (case select_single (filter (\<lambda>r. row_episode_id r = episode_id) (episode_bibles db)) of
        Inl err \<Rightarrow> (if err \<noteq> PGRST116 then Failure else BibleLoaded None)
      | Inr data \<Rightarrow> BibleLoaded (Some (row_to_bible data)))"

definition checkEpisodeBibleExists :: "Database \<Rightarrow> string \<Rightarrow> tool_result" where
  "checkEpisodeBibleExists db episode_id =
     (case select_single (filter (\<lambda>r. row_episode_id r = episode_id) (episode_bibles db)) of
        Inl err \<Rightarrow> (if err \<noteq> PGRST116 then Failure else BibleExists False)
      | Inr data \<Rightarrow> BibleExists True)"

subsection \<open>Episode tools\<close>

record EpisodeInput =
  in_id :: "string option"
  in_accountId :: string
  in_createdBy :: string
  in_title :: string
  in_premise :: string
  in_stateCard :: StateCard
  in_status :: episode_status
  in_totalScenes :: int
  in_totalChoices :: int

text \<open>
  \<^verbatim>\<open>saveEpisode\<close> updates the row with the given id when the id is a non-empty
  string, and inserts a row otherwise; the id and the creation time of an inserted row
  come from the database and are the arguments \<open>new_id\<close> and \<open>now\<close>.
\<close>

definition saveEpisode :: "Database \<Rightarrow> EpisodeInput \<Rightarrow> string \<Rightarrow> string \<Rightarrow> tool_result \<times> Database" where
  "saveEpisode db episode new_id now =
     (case in_id episode of
        Some i \<Rightarrow>
          (if i \<noteq> []
           then (let updated =
                       map (\<lambda>e. if ep_id e = i
                                 then e\<lparr>accountId := in_accountId episode,
                                        createdBy := in_createdBy episode,
                                        title := in_title episode,
                                        ep_premise := in_premise episode,
                                        ep_stateCard := in_stateCard episode,
                                        status := in_status episode,
                                        totalScenes := in_totalScenes episode,
                                        totalChoices := in_totalChoices episode\<rparr>
                                 else e)
                           (episodes db)
                 in case select_single (filter (\<lambda>e. ep_id e = i) updated) of
                      Inl err \<Rightarrow> (Failure, db)
                    | Inr data \<Rightarrow> (EpisodeResult data, db\<lparr>episodes := updated\<rparr>))
           else (if list_ex (\<lambda>e. ep_id e = new_id) (episodes db) then (Failure, db)
                 else (let data = \<lparr>ep_id = new_id, accountId = in_accountId episode,
                                   createdBy = in_createdBy episode, title = in_title episode,
                                   ep_premise = in_premise episode,
                                   ep_stateCard = in_stateCard episode,
                                   status = in_status episode, ep_createdAt = now,
                                   completedAt = None, totalScenes = in_totalScenes episode,
                                   totalChoices = in_totalChoices episode\<rparr>
                       in (EpisodeResult data, db\<lparr>episodes := episodes db @ [data]\<rparr>))))
      | None \<Rightarrow>
          (if list_ex (\<lambda>e. ep_id e = new_id) (episodes db) then (Failure, db)
           else (let data = \<lparr>ep_id = new_id, accountId = in_accountId episode,
                             createdBy = in_createdBy episode, title = in_title episode,
                             ep_premise = in_premise episode,
                             ep_stateCard = in_stateCard episode,
                             status = in_status episode, ep_createdAt = now,
                             completedAt = None, totalScenes = in_totalScenes episode,
                             totalChoices = in_totalChoices episode\<rparr>
                 in (EpisodeResult data, db\<lparr>episodes := episodes db @ [data]\<rparr>))))"

definition loadEpisode :: "Database \<Rightarrow> string \<Rightarrow> tool_result" where
  "loadEpisode db episode_id =
     (case select_single (filter (\<lambda>e. ep_id e = episode_id) (episodes db)) of
        Inl err \<Rightarrow> Failure
      | Inr data \<Rightarrow> EpisodeResult data)"

text \<open>\<^verbatim>\<open>updateEpisodeStats\<close> writes the two counters and, when a status is given, the
  status, with the completion time when the status is \<^verbatim>\<open>completed\<close>.\<close>

definition updateEpisodeStats ::
  "Database \<Rightarrow> string \<Rightarrow> int \<Rightarrow> int \<Rightarrow> episode_status option \<Rightarrow> string \<Rightarrow> tool_result \<times> Database" where
  "updateEpisodeStats db episode_id scenes choices new_status now =
     (let updated =
            map (\<lambda>e. if ep_id e = episode_id
                      then (case new_status of
                              None \<Rightarrow> e\<lparr>totalScenes := scenes, totalChoices := choices\<rparr>
                            | Some s \<Rightarrow>
                                if s = completed
                                then e\<lparr>totalScenes := scenes, totalChoices := choices,
                                       status := s, completedAt := Some now\<rparr>
                                else e\<lparr>totalScenes := scenes, totalChoices := choices,
                                       status := s\<rparr>)
                      else e)
                (episodes db)
      in case select_single (filter (\<lambda>e. ep_id e = episode_id) updated) of
           Inl err \<Rightarrow> (Failure, db)
         | Inr data \<Rightarrow> (EpisodeResult data, db\<lparr>episodes := updated\<rparr>))"

section \<open>The two operations of the orchestrator\<close>

subsection \<open>The orchestrating language model and its tool calls\<close>

text \<open>
  \<^verbatim>\<open>startEpisode\<close> and \<^verbatim>\<open>processChoice\<close> begin with a \<^verbatim>\<open>generateText\<close> call that
  hands a set of tools to a language model and lets it decide which to call, with which
  arguments, in which order. What the language model decides is input to the code: an
  orchestration is the sequence of tool calls the language model made, with the arguments it
  chose and the values the database generated for them, and the rejection of the call
  if it failed in the end. The code is what each tool's \<^verbatim>\<open>execute\<close> does. The task
  \<^verbatim>\<open>generateFinale\<close> of the scene-planner tool, whose result has no scene data, is
  left out.
\<close>

datatype operation = StartEpisode | ProcessChoice

datatype other_tool =
    saveScene | loadScenes | updateSceneChoice
  | delegateToContinuityAgent | delegateToAudioWorkers
  | generateMusic | generateSFX | generateDetailedMusic | createAudioCueSheet | loadEpisodeAudio

datatype tool_event =
    DelegateToStoryDirector string
  | DelegateToStateAgent_initialize string
  | DelegateToStateAgent_update StateCard Scene choice "Scene list"
  | DelegateToScenePlanner string js_arg StateCard int js_arg
  | LoadEpisodeBible string
  | SaveEpisodeBible string EpisodeBible string
  | CheckEpisodeBibleExists string
  | SaveEpisode EpisodeInput string string
  | LoadEpisode string
  | UpdateEpisodeStats string int int "episode_status option" string
  | OtherTool other_tool "tool_result option"

record Orchestration =
  tool_events :: "tool_event list"
  rejection :: "error option"

fun other_tool_name :: "other_tool \<Rightarrow> string" where
  "other_tool_name saveScene = ''saveScene''"
| "other_tool_name loadScenes = ''loadScenes''"
| "other_tool_name updateSceneChoice = ''updateSceneChoice''"
| "other_tool_name delegateToContinuityAgent = ''delegateToContinuityAgent''"
| "other_tool_name delegateToAudioWorkers = ''delegateToAudioWorkers''"
| "other_tool_name generateMusic = ''generateMusic''"
| "other_tool_name generateSFX = ''generateSFX''"
| "other_tool_name generateDetailedMusic = ''generateDetailedMusic''"
| "other_tool_name createAudioCueSheet = ''createAudioCueSheet''"
| "other_tool_name loadEpisodeAudio = ''loadEpisodeAudio''"

fun event_name :: "tool_event \<Rightarrow> string" where
  "event_name (DelegateToStoryDirector premise) = ''delegateToStoryDirector''"
| "event_name (DelegateToStateAgent_initialize premise) = ''delegateToStateAgent''"
| "event_name (DelegateToStateAgent_update sc scene c previous) = ''delegateToStateAgent''"
| "event_name (DelegateToScenePlanner premise bible sc n cb) = ''delegateToScenePlanner''"
| "event_name (LoadEpisodeBible i) = ''loadEpisodeBible''"
| "event_name (SaveEpisodeBible i bible new_id) = ''saveEpisodeBible''"
| "event_name (CheckEpisodeBibleExists i) = ''checkEpisodeBibleExists''"
| "event_name (SaveEpisode episode new_id now) = ''saveEpisode''"
| "event_name (LoadEpisode i) = ''loadEpisode''"
| "event_name (UpdateEpisodeStats i scenes choices st now) = ''updateEpisodeStats''"
| "event_name (OtherTool t r) = other_tool_name t"

text \<open>The tools each operation offers. \<^verbatim>\<open>startEpisode\<close>: the five delegations, the
  episode tools and the Bible tools. \<^verbatim>\<open>processChoice\<close>: state update, scene planner,
  continuity, the episode tools and the audio tools.\<close>

fun offered_by_start :: "tool_event \<Rightarrow> bool" where
  "offered_by_start (OtherTool t r) =
     (t = saveScene \<or> t = loadScenes \<or> t = updateSceneChoice
      \<or> t = delegateToContinuityAgent \<or> t = delegateToAudioWorkers)"
| "offered_by_start ev = True"

fun offered_by_choice :: "tool_event \<Rightarrow> bool" where
  "offered_by_choice (DelegateToStoryDirector premise) = False"
| "offered_by_choice (DelegateToStateAgent_initialize premise) = False"
| "offered_by_choice (LoadEpisodeBible i) = False"
| "offered_by_choice (SaveEpisodeBible i bible new_id) = False"
| "offered_by_choice (CheckEpisodeBibleExists i) = False"
| "offered_by_choice (OtherTool t r) = (t \<noteq> delegateToAudioWorkers)"
| "offered_by_choice ev = True"

definition offered :: "operation \<Rightarrow> tool_event \<Rightarrow> bool" where
  "offered operation ev =
     (case operation of
        StartEpisode \<Rightarrow> offered_by_start ev
      | ProcessChoice \<Rightarrow> offered_by_choice ev)"

text \<open>
  The \<^verbatim>\<open>execute\<close> functions. The delegation to the Story Director stores the Bible
  it gets in the orchestrator's field, unconditionally. The scene-planner tool of
  \<^verbatim>\<open>startEpisode\<close> passes premise, Bible, State Card, scene number and suggestion;
  the one of \<^verbatim>\<open>processChoice\<close> passes premise, State Card, scene number and
  suggestion, in that order, to the same five parameters. The database tools catch
  their errors; a delegation whose agent rejects throws and leaves no result. A tool of
  which only the result matters here (scenes, audio, continuity) is an event with the
  result it had.
\<close>

fun execute_tool ::
  "operation \<Rightarrow> Agents \<Rightarrow> tool_event \<Rightarrow> Orchestrator \<times> Database
     \<Rightarrow> tool_result option \<times> Orchestrator \<times> Database" where
  "execute_tool operation agents (DelegateToStoryDirector premise) (orch, db) =
     (case storyDirector_createEpisodeBible agents premise of
        Inl e \<Rightarrow> (None, orch, db)
      | Inr bible \<Rightarrow> (Some (DirectorResult bible), storeEpisodeBible orch bible, db))"
| "execute_tool operation agents (DelegateToStateAgent_initialize premise) (orch, db) =
     (case stateAgent_initializeStateCard agents premise of
        Inl e \<Rightarrow> (None, orch, db)
      | Inr stateCard \<Rightarrow> (Some (StateResult stateCard), orch, db))"
| "execute_tool operation agents (DelegateToStateAgent_update sc scene c previous) (orch, db) =
     (case stateAgent_updateStateCard agents sc scene c previous of
        Inl e \<Rightarrow> (None, orch, db)
      | Inr updatedStateCard \<Rightarrow> (Some (StateUpdateResult updatedStateCard), orch, db))"
| "execute_tool operation agents (DelegateToScenePlanner premise bible sc n cb) (orch, db) =
     (case scenePlanner_generateScene agents
             (case operation of
                StartEpisode \<Rightarrow>
                  \<lparr>call_premise = premise, call_episodeBible = bible,
                   call_stateCard = Card sc, call_sceneNumber = Num n,
                   call_callbackSuggestion = cb\<rparr>
              | ProcessChoice \<Rightarrow>
                  \<lparr>call_premise = premise, call_episodeBible = Card sc,
                   call_stateCard = Num n, call_sceneNumber = cb,
                   call_callbackSuggestion = Undefined\<rparr>) of
        Inl e \<Rightarrow> (None, orch, db)
      | Inr sceneData \<Rightarrow> (Some (SceneResult sceneData), orch, db))"
| "execute_tool operation agents (LoadEpisodeBible i) (orch, db) =
     (Some (loadEpisodeBible db i), orch, db)"
| "execute_tool operation agents (SaveEpisodeBible i bible new_id) (orch, db) =
     (case saveEpisodeBible db i bible new_id of (r, db') \<Rightarrow> (Some r, orch, db'))"
| "execute_tool operation agents (CheckEpisodeBibleExists i) (orch, db) =
     (Some (checkEpisodeBibleExists db i), orch, db)"
| "execute_tool operation agents (SaveEpisode episode new_id now) (orch, db) =
     (case saveEpisode db episode new_id now of (r, db') \<Rightarrow> (Some r, orch, db'))"
| "execute_tool operation agents (LoadEpisode i) (orch, db) =
     (Some (loadEpisode db i), orch, db)"
| "execute_tool operation agents (UpdateEpisodeStats i scenes choices st now) (orch, db) =
     (case updateEpisodeStats db i scenes choices st now of (r, db') \<Rightarrow> (Some r, orch, db'))"
| "execute_tool operation agents (OtherTool t r) (orch, db) = (r, orch, db)"

text \<open>The run of the tool calls, in order; a call of a tool that the operation does
  not offer cannot happen and is skipped.\<close>

fun run_tools ::
  "operation \<Rightarrow> Agents \<Rightarrow> tool_event list \<Rightarrow> Orchestrator \<times> Database
     \<Rightarrow> ToolCall list \<times> Orchestrator \<times> Database" where
  "run_tools operation agents [] s = ([], s)"
| "run_tools operation agents (ev # evs) s =
     (if offered operation ev
      then (case execute_tool operation agents ev s of
              (r, s1) \<Rightarrow>
                (case run_tools operation agents evs s1 of
                   (calls, s2) \<Rightarrow> (\<lparr>toolName = event_name ev, result = r\<rparr> # calls, s2)))
      else run_tools operation agents evs s)"

definition generateText ::
  "operation \<Rightarrow> Agents \<Rightarrow> Orchestration \<Rightarrow> Orchestrator \<times> Database
     \<Rightarrow> (error + ToolCall list) \<times> Orchestrator \<times> Database" where
  "generateText operation agents orchestration s =
     (case run_tools operation agents (tool_events orchestration) s of
        (calls, s1) \<Rightarrow>
          (case rejection orchestration of
             Some e \<Rightarrow> (Inl e, s1)
           | None \<Rightarrow> (Inr calls, s1)))"

subsection \<open>startEpisode\<close>

record StartResult =
  episode :: Episode
  firstScene :: Scene
  start_stateCard :: StateCard

text \<open>
  The first scene is put together from the id the \<^verbatim>\<open>saveScene\<close> tool returned, the
  saved episode's id and the planner's scene data. When \<^verbatim>\<open>saveScene\<close> failed its
  result has no \<^verbatim>\<open>sceneId\<close> and the scene's id is \<^verbatim>\<open>undefined\<close>, written here as it
  prints. A successful result of the scene-planner tool always has scene data.
\<close>

definition first_scene :: "string option \<Rightarrow> Episode \<Rightarrow> SceneData option \<Rightarrow> Clock \<Rightarrow> Scene" where
  "first_scene sceneId ep sceneData clock =
     \<lparr>scene_id = (case sceneId of None \<Rightarrow> ''undefined'' | Some i \<Rightarrow> i),
      episodeId = ep_id ep,
      sceneNumber = 1,
      narration = (case sceneData of None \<Rightarrow> ''undefined'' | Some sd \<Rightarrow> sd_narration sd),
      choiceA = (case sceneData of None \<Rightarrow> ''undefined'' | Some sd \<Rightarrow> sd_choiceA sd),
      choiceB = (case sceneData of None \<Rightarrow> ''undefined'' | Some sd \<Rightarrow> sd_choiceB sd),
      chosenOption = None,
      stateUpdate = (case sceneData of None \<Rightarrow> [] | Some sd \<Rightarrow> sd_stateUpdate sd),
      audioCues = (case sceneData of None \<Rightarrow> [] | Some sd \<Rightarrow> sd_audioCues sd),
      createdAt = now_iso clock\<rparr>"

text \<open>
  \<^verbatim>\<open>startEpisode\<close>. Account, user and title only enter the prompt to the language model. After
  the orchestration the method reads four tool results, requires the state and the
  scene result to be successes, reads \<^verbatim>\<open>episodeResult.episode\<close>,
  \<^verbatim>\<open>sceneDbResult.sceneId\<close> and \<^verbatim>\<open>episode.id\<close> (each a \<^verbatim>\<open>TypeError\<close> on
  \<^verbatim>\<open>undefined\<close>), sets the window's current scene and generates the children. A state
  result of the update task has no \<^verbatim>\<open>stateCard\<close>; the continuity agent then reads
  \<^verbatim>\<open>storySoFar\<close> of \<^verbatim>\<open>undefined\<close>.
\<close>

definition startEpisode ::
  "Agents \<Rightarrow> Clock \<Rightarrow> (choice \<Rightarrow> Clock) \<Rightarrow> Orchestration \<Rightarrow> Orchestrator \<times> Database
     \<Rightarrow> string \<Rightarrow> string \<Rightarrow> string \<Rightarrow> string
     \<Rightarrow> (error + StartResult) \<times> Orchestrator \<times> Database" where
  "startEpisode agents clock clocks orchestration s account_id user_id episode_title premise =
     (case generateText StartEpisode agents orchestration s of
        (Inl e, s1) \<Rightarrow> (Inl e, s1)
      | (Inr toolCalls, orch, db) \<Rightarrow>
          (let stateResult = extractToolResult toolCalls ''delegateToStateAgent'';
               sceneResult = extractToolResult toolCalls ''delegateToScenePlanner'';
               episodeResult = extractToolResult toolCalls ''saveEpisode'';
               sceneDbResult = extractToolResult toolCalls ''saveScene''
           in if \<not> success stateResult \<or> \<not> success sceneResult
              then (Inl (Error ''Worker agents failed during episode initialization''), orch, db)
              else
                (case (stateResult, sceneResult) of
                   (Some stateR, Some sceneR) \<Rightarrow>
                     (case episodeResult of
                        None \<Rightarrow> (Inl (TypeError ''episode''), orch, db)
                      | Some episodeR \<Rightarrow>
                          (case sceneDbResult of
                             None \<Rightarrow> (Inl (TypeError ''sceneId''), orch, db)
                           | Some sceneDbR \<Rightarrow>
                               (case res_episode episodeR of
                                  None \<Rightarrow> (Inl (TypeError ''id''), orch, db)
                                | Some ep \<Rightarrow>
                                    (let scene1 = first_scene (res_sceneId sceneDbR) ep
                                                    (res_sceneData sceneR) clock;
                                         orch1 = orch\<lparr>scenarioWindow :=
                                                   (scenarioWindow orch)\<lparr>current := Some scene1\<rparr>\<rparr>
                                     in case res_stateCard stateR of
                                          None \<Rightarrow> (Inl (TypeError ''storySoFar''), orch1, db)
                                        | Some stateCard \<Rightarrow>
                                            (case coordinateChildGeneration agents clocks orch1
                                                    premise stateCard scene1 of
                                               (Inl e, orch2) \<Rightarrow> (Inl e, orch2, db)
                                             | (Inr u, orch2) \<Rightarrow>
                                                 (Inr \<lparr>episode = ep, firstScene = scene1,
                                                       start_stateCard = stateCard\<rparr>,
                                                  orch2, db))))))
                 | _ \<Rightarrow>
                     (Inl (Error ''Worker agents failed during episode initialization''),
                      orch, db))))"

subsection \<open>processChoice\<close>

record ChoiceResult =
  nextScene :: Scene
  updatedStateCard :: StateCard
  audioGenerated :: bool

text \<open>
  \<^verbatim>\<open>processChoice\<close>. The orchestration runs first. Then the candidate of the choice is
  taken from the window, and the method throws when there is none; then the state
  result is required; then the window is moved to the candidate, the children of the
  candidate are generated with the empty premise, and the candidate is returned.
\<close>

definition processChoice ::
  "Agents \<Rightarrow> (choice \<Rightarrow> Clock) \<Rightarrow> Orchestration \<Rightarrow> Orchestrator \<times> Database
     \<Rightarrow> string \<Rightarrow> choice \<Rightarrow> string
     \<Rightarrow> (error + ChoiceResult) \<times> Orchestrator \<times> Database" where
  "processChoice agents clocks orchestration s episode_id c user_id =
     (case generateText ProcessChoice agents orchestration s of
        (Inl e, s1) \<Rightarrow> (Inl e, s1)
      | (Inr toolCalls, orch, db) \<Rightarrow>
          (case (if c = A then optionA (scenarioWindow orch)
                 else optionB (scenarioWindow orch)) of
             None \<Rightarrow>
               (Inl (Error ''No pre-generated scenario available for choice''), orch, db)
           | Some next_scene \<Rightarrow>
               (let stateUpdateResult = extractToolResult toolCalls ''delegateToStateAgent''
                in if \<not> success stateUpdateResult
                   then (Inl (Error ''State Agent failed to update state card''), orch, db)
                   else
                     (let orch1 = orch\<lparr>scenarioWindow :=
                                    \<lparr>current = Some next_scene, optionA = None,
                                     optionB = None\<rparr>\<rparr>
                      in case (case stateUpdateResult of
                                 None \<Rightarrow> None
                               | Some r \<Rightarrow> res_updatedStateCard r) of
                           None \<Rightarrow> (Inl (TypeError ''storySoFar''), orch1, db)
                         | Some stateCard \<Rightarrow>
                             (case coordinateChildGeneration agents clocks orch1 []
                                     stateCard next_scene of
                                (Inl e, orch2) \<Rightarrow> (Inl e, orch2, db)
                              | (Inr u, orch2) \<Rightarrow>
                                  (Inr \<lparr>nextScene = next_scene,
                                        updatedStateCard = stateCard,
                                        audioGenerated = False\<rparr>,
                                   orch2, db))))))"

text \<open>The tools that write to the \<^verbatim>\<open>episodes\<close> table.\<close>

fun writes_episodes :: "tool_event \<Rightarrow> bool" where
  "writes_episodes (SaveEpisode input new_id now) = True"
| "writes_episodes (UpdateEpisodeStats i scenes choices st now) = True"
| "writes_episodes ev = False"

section \<open>Values for the concrete checks\<close>

definition mansion_bible :: EpisodeBible where
  "mansion_bible =
     \<lparr>worldRules =
        \<lparr>genre = ''horror'', style = ''gothic horror'', tone = ''dread'',
         setting = ''a Victorian mansion'', timeframe = ''one stormy night'',
         coreConflict = ''escape the house'', worldLogic = [''the dead keep their habits'']\<rparr>,
      storytellingGuidelines =
        \<lparr>narrativeVoice = ''second person, present tense'', pacing = pacing_moderate,
         complexity = complexity_simple, atmosphereKeywords = [''storm'', ''candlelight''],
         choicePhilosophy = ''every choice costs something'',
         sceneStructureNotes = ''end on the decision''\<rparr>,
      characterFramework =
        \<lparr>protagonistTypes = [''guests''], antagonistTypes = [''the house''],
         supportingTypes = [''the butler''], characterVoiceGuidelines = ''formal''\<rparr>,
      conflictPatterns =
        \<lparr>typicalConflicts = [''locked doors''], escalationPattern = ''rooms close in'',
         resolutionApproach = ''a price is paid''\<rparr>,
      audioDirection =
        \<lparr>musicStyle = ''string quartet'', commonSFXTypes = [''creaks'', ''thunder''],
         audioIntensityRange = moderate, atmosphereNotes = ''sparse''\<rparr>,
      storyArcGuidance =
        \<lparr>expectedProgression = ''arrival, discovery, escape'', keyFactTypes = [''keys''],
         likelyAnchorTypes = [''objects''], finaleExpectation = ''dawn''\<rparr>,
      consistencyRules = [''no daylight before the finale''],
      reasoning = ''the premise names a haunted mansion''\<rparr>"

definition hall_card :: StateCard where
  "hall_card =
     \<lparr>storySoFar = ''We are in the hall.'', keyFacts = [''door locked''],
      anchors = [\<lparr>anchor_id = ''a1'', anchor_description = ''brass key'',
                  isUsed = False, createdAtScene = 1\<rparr>],
      themes = Some []\<rparr>"

definition door_scene :: Scene where
  "door_scene =
     \<lparr>scene_id = ''s1'', episodeId = ''e1'', sceneNumber = 1,
      narration = ''A door stands ajar.'', choiceA = ''Open it'', choiceB = ''Walk away'',
      chosenOption = None, stateUpdate = [], audioCues = [],
      createdAt = ''2023-11-14T22:13:20.000Z''\<rparr>"

definition cellar_data :: SceneData where
  "cellar_data =
     \<lparr>sd_narration = ''Stairs lead down.'', sd_choiceA = ''Descend'', sd_choiceB = ''Call out'',
      sd_stateUpdate = [], sd_audioCues = []\<rparr>"

definition quiet_suggestion :: CallbackSuggestion where
  "quiet_suggestion =
     \<lparr>shouldUseCallback = False, suggestedAnchor = None, callbackType = none,
      reason = ''too early'', integration = None\<rparr>"

definition fixed_clock :: "choice \<Rightarrow> Clock" where
  "fixed_clock c = \<lparr>now_ms = ''1700000000000'', now_iso = ''2023-11-14T22:13:21.000Z''\<rparr>"

text \<open>Workers that answer with the values above, around a scene planner given as
  argument.\<close>

definition scripted_agents :: "(PlannerCall \<Rightarrow> error + SceneData) \<Rightarrow> Agents" where
  "scripted_agents planner =
     \<lparr>storyDirector_createEpisodeBible = (\<lambda>premise. Inr mansion_bible),
      stateAgent_initializeStateCard = (\<lambda>premise. Inr hall_card),
      stateAgent_updateStateCard = (\<lambda>currentStateCard newScene chosen previous. Inr currentStateCard),
      scenePlanner_generateScene = planner,
      continuityAgent_analyzeCallbacks = (\<lambda>stateCard context. Inr quiet_suggestion)\<rparr>"

text \<open>A scene planner that answers every call with the same scene data; the runs of
  \<^verbatim>\<open>processChoice\<close> below are given it and never call it.\<close>

definition planner_succeeding :: "PlannerCall \<Rightarrow> error + SceneData" where
  "planner_succeeding call = Inr cellar_data"

definition empty_orchestrator :: Orchestrator where
  "empty_orchestrator =
     \<lparr>episodeBible = None,
      scenarioWindow = \<lparr>current = None, optionA = None, optionB = None\<rparr>\<rparr>"

definition cellar_scene :: Scene where
  "cellar_scene =
     \<lparr>scene_id = ''temp_s1_B_1700000000000'', episodeId = ''e1'', sceneNumber = 2,
      narration = ''Stairs lead down.'', choiceA = ''Descend'', choiceB = ''Call out'',
      chosenOption = None, stateUpdate = [], audioCues = [],
      createdAt = ''2023-11-14T22:13:21.000Z''\<rparr>"

text \<open>An orchestrator whose window holds the candidate of choice B only, and a database
  with one active episode.\<close>

definition orchestrator_only_B :: Orchestrator where
  "orchestrator_only_B =
     \<lparr>episodeBible = Some mansion_bible,
      scenarioWindow = \<lparr>current = Some door_scene, optionA = None,
                        optionB = Some cellar_scene\<rparr>\<rparr>"

definition mansion_episode :: Episode where
  "mansion_episode =
     \<lparr>ep_id = ''e1'', accountId = ''acc'', createdBy = ''user'', title = ''The Mansion'',
      ep_premise = ''We are trapped in a haunted mansion'', ep_stateCard = hall_card,
      status = active, ep_createdAt = ''2023-11-14T22:13:19.000Z'', completedAt = None,
      totalScenes = 0, totalChoices = 0\<rparr>"

definition one_episode_db :: Database where
  "one_episode_db = \<lparr>episodes = [mansion_episode], episode_bibles = []\<rparr>"

text \<open>
  Two calls of \<^verbatim>\<open>startEpisode\<close> for the episode \<open>e1\<close>, one after the other on
  the same orchestrator and database, with any scene planner. In the first the language model
  checks for a Bible, has the Story Director create one, saves it, and goes on to state,
  scene and records. In the second it asks the Story Director again, whose
  answer this time is a different Bible, and saves that.
\<close>

definition lighthouse_bible :: EpisodeBible where
  "lighthouse_bible = mansion_bible\<lparr>reasoning := ''a second reading of the premise''\<rparr>"

definition mansion_input :: EpisodeInput where
  "mansion_input =
     \<lparr>in_id = Some ''e1'', in_accountId = ''acc'', in_createdBy = ''user'',
      in_title = ''The Mansion'', in_premise = ''We are trapped in a haunted mansion'',
      in_stateCard = hall_card, in_status = active, in_totalScenes = 0,
      in_totalChoices = 0\<rparr>"

definition start_clock :: Clock where
  "start_clock = \<lparr>now_ms = ''1699999999000'', now_iso = ''2023-11-14T22:13:19.000Z''\<rparr>"

definition first_orchestration :: Orchestration where
  "first_orchestration =
     \<lparr>tool_events =
        [CheckEpisodeBibleExists ''e1'',
         DelegateToStoryDirector ''We are trapped in a haunted mansion'',
         SaveEpisodeBible ''e1'' mansion_bible ''b1'',
         DelegateToStateAgent_initialize ''We are trapped in a haunted mansion'',
         DelegateToScenePlanner ''We are trapped in a haunted mansion'' (Bible mansion_bible)
           hall_card 1 Undefined,
         SaveEpisode mansion_input ''unused'' ''2023-11-14T22:13:19.000Z'',
         OtherTool saveScene (Some (SceneSaved ''s1''))],
      rejection = None\<rparr>"

definition second_orchestration :: Orchestration where
  "second_orchestration =
     \<lparr>tool_events =
        [DelegateToStoryDirector ''We are trapped in a haunted mansion'',
         SaveEpisodeBible ''e1'' lighthouse_bible ''b2'',
         DelegateToStateAgent_initialize ''We are trapped in a haunted mansion'',
         DelegateToScenePlanner ''We are trapped in a haunted mansion'' (Bible lighthouse_bible)
           hall_card 1 Undefined,
         SaveEpisode mansion_input ''unused'' ''2023-11-14T22:15:00.000Z'',
         OtherTool saveScene (Some (SceneSaved ''s1b''))],
      rejection = None\<rparr>"

definition first_start ::
  "(PlannerCall \<Rightarrow> error + SceneData) \<Rightarrow> (error + StartResult) \<times> Orchestrator \<times> Database" where
  "first_start planner =
     startEpisode (scripted_agents planner) start_clock fixed_clock
       first_orchestration (empty_orchestrator, one_episode_db)
       ''acc'' ''user'' ''The Mansion'' ''We are trapped in a haunted mansion''"

definition second_start ::
  "(PlannerCall \<Rightarrow> error + SceneData) \<Rightarrow> (error + StartResult) \<times> Orchestrator \<times> Database" where
  "second_start planner =
     startEpisode
       ((scripted_agents planner)
          \<lparr>storyDirector_createEpisodeBible := (\<lambda>premise. Inr lighthouse_bible)\<rparr>)
       start_clock fixed_clock second_orchestration (snd (first_start planner))
       ''acc'' ''user'' ''The Mansion'' ''We are trapped in a haunted mansion''"

section \<open>Properties of the local state operations\<close>

lemma slice_last_idem: "slice_last k (slice_last k xs) = slice_last k xs"
  by (simp add: slice_last_def)

lemma slice_last_length: "length (slice_last k xs) = min k (length xs)"
  by (simp add: slice_last_def)

lemma slice_last_suffix: "suffix (slice_last k xs) xs"
  by (simp add: slice_last_def suffix_drop)

lemma alloc_card_keeps:
  "r < length store \<Longrightarrow> snd (alloc_card store sc) ! r = store ! r"
  by (simp add: alloc_card_def nth_append)

lemma alloc_card_new:
  "snd (alloc_card store sc) ! fst (alloc_card store sc) = sc"
  by (simp add: alloc_card_def)

text \<open>
  C5. The projected card of a branch: the summary is the canonical summary, a space and
  the text of the chosen branch; the key facts are the canonical ones followed by
  \<open>Chose: \<close> and that text; anchors (and every other property) are carried over. The
  projection is a new object: the canonical card is still in the store, unchanged, at
  its address.
\<close>

theorem projectStateForChoice_spec:
  assumes "r < length store"
  shows "\<exists>r' store'.
           projectStateForChoice_at store r scene c = Some (r', store')
         \<and> r' \<noteq> r \<and> store' ! r = store ! r \<and> take (length store) store' = store
         \<and> store' ! r' = projectStateForChoice (store ! r) scene c
         \<and> storySoFar (store' ! r') =
             storySoFar (store ! r) @ '' '' @ (if c = A then choiceA scene else choiceB scene)
         \<and> keyFacts (store' ! r') =
             keyFacts (store ! r) @ [''Chose: '' @ (if c = A then choiceA scene else choiceB scene)]
         \<and> anchors (store' ! r') = anchors (store ! r)
         \<and> themes (store' ! r') = themes (store ! r)"
  using assms
  by (simp add: projectStateForChoice_at_def alloc_card_def nth_append
                projectStateForChoice_def Let_def)

theorem projectStateForChoice_spec_witness:
  "(0::nat) < length [\<lparr>storySoFar = ''We are in the hall.'', keyFacts = [''door locked''],
                       anchors = [\<lparr>anchor_id = ''a1'', anchor_description = ''brass key'',
                                   isUsed = False, createdAtScene = 1\<rparr>],
                       themes = None\<rparr>]
   \<and> projectStateForChoice_at
        [\<lparr>storySoFar = ''We are in the hall.'', keyFacts = [''door locked''],
          anchors = [\<lparr>anchor_id = ''a1'', anchor_description = ''brass key'',
                      isUsed = False, createdAtScene = 1\<rparr>],
          themes = None\<rparr>]
        0
        \<lparr>scene_id = ''s1'', episodeId = ''e1'', sceneNumber = 1, narration = ''A door.'',
         choiceA = ''Open it'', choiceB = ''Walk away'', chosenOption = None,
         stateUpdate = [], audioCues = [], createdAt = ''t''\<rparr>
        B
     = Some (1,
        [\<lparr>storySoFar = ''We are in the hall.'', keyFacts = [''door locked''],
          anchors = [\<lparr>anchor_id = ''a1'', anchor_description = ''brass key'',
                      isUsed = False, createdAtScene = 1\<rparr>],
          themes = None\<rparr>,
         \<lparr>storySoFar = ''We are in the hall. Walk away'',
          keyFacts = [''door locked'', ''Chose: Walk away''],
          anchors = [\<lparr>anchor_id = ''a1'', anchor_description = ''brass key'',
                      isUsed = False, createdAtScene = 1\<rparr>],
          themes = None\<rparr>])"
proof -
  let ?sc = "\<lparr>storySoFar = ''We are in the hall.'', keyFacts = [''door locked''],
              anchors = [\<lparr>anchor_id = ''a1'', anchor_description = ''brass key'',
                          isUsed = False, createdAtScene = 1\<rparr>],
              themes = None\<rparr>"
  let ?scene = "\<lparr>scene_id = ''s1'', episodeId = ''e1'', sceneNumber = 1, narration = ''A door.'',
                 choiceA = ''Open it'', choiceB = ''Walk away'', chosenOption = None,
                 stateUpdate = [], audioCues = [], createdAt = ''t''\<rparr>"
  have h: "(0::nat) < length [?sc]" by simp
  have run: "projectStateForChoice_at [?sc] 0 ?scene B =
      Some (1, [?sc, \<lparr>storySoFar = ''We are in the hall. Walk away'',
                      keyFacts = [''door locked'', ''Chose: Walk away''],
                      anchors = anchors ?sc, themes = None\<rparr>])"
    by (simp add: projectStateForChoice_at_def alloc_card_def projectStateForChoice_def Let_def)
  from projectStateForChoice_spec [OF h, of ?scene B]
  have "\<exists>r' store'. projectStateForChoice_at [?sc] 0 ?scene B = Some (r', store')"
    by blast
  with h run show ?thesis by simp
qed

text \<open>
  C7. \<^verbatim>\<open>cleanupStateCard\<close> drops exactly the anchors that are unused and at least
  \<open>maxAgeScenes = 8\<close> scenes old, so every used anchor stays; it keeps the last
  \<open>keyFactsCap = 10\<close> key facts, in order. It makes no external call and builds a new
  card: the card it was given is still in the store, unchanged.
\<close>

theorem cleanupStateCard_spec:
  assumes "r < length store"
  shows "\<exists>r' store'.
           cleanupStateCard_at store r n = Some (r', store')
         \<and> r' \<noteq> r \<and> store' ! r = store ! r \<and> take (length store) store' = store
         \<and> store' ! r' = cleanupStateCard (store ! r) n
         \<and> anchors (store' ! r') =
             filter (\<lambda>a. \<not> (\<not> isUsed a \<and> maxAgeScenes \<le> n - createdAtScene a))
                    (anchors (store ! r))
         \<and> filter isUsed (anchors (store' ! r')) = filter isUsed (anchors (store ! r))
         \<and> keyFacts (store' ! r') = slice_last keyFactsCap (keyFacts (store ! r))
         \<and> suffix (keyFacts (store' ! r')) (keyFacts (store ! r))
         \<and> length (keyFacts (store' ! r')) = min keyFactsCap (length (keyFacts (store ! r)))
         \<and> length (keyFacts (store' ! r')) \<le> 10
         \<and> maxAgeScenes = 8 \<and> keyFactsCap = 10
         \<and> storySoFar (store' ! r') = storySoFar (store ! r)"
proof -
  let ?sc = "store ! r"
  let ?res = "cleanupStateCard ?sc n"
  have anch: "anchors ?res =
      filter (\<lambda>a. \<not> (\<not> isUsed a \<and> maxAgeScenes \<le> n - createdAtScene a)) (anchors ?sc)"
    by (simp add: cleanupStateCard_def Let_def not_le)
  have used: "filter isUsed (anchors ?res) = filter isUsed (anchors ?sc)"
    unfolding anch filter_filter by (rule filter_cong) auto
  have facts: "keyFacts ?res = slice_last keyFactsCap (keyFacts ?sc)"
    by (simp add: cleanupStateCard_def Let_def)
  have story: "storySoFar ?res = storySoFar ?sc"
    by (simp add: cleanupStateCard_def Let_def)
  have len: "length (keyFacts ?res) \<le> 10"
    unfolding facts by (simp add: slice_last_length keyFactsCap_def)
  have at: "cleanupStateCard_at store r n = Some (length store, store @ [?res])"
    using assms by (simp add: cleanupStateCard_at_def alloc_card_def)
  show ?thesis
    using assms anch used facts story len at
    by (simp add: nth_append slice_last_length slice_last_suffix
                  maxAgeScenes_def keyFactsCap_def)
qed

theorem cleanupStateCard_spec_witness:
  "(0::nat) < length [\<lparr>storySoFar = ''s'',
                       keyFacts = [''f1'', ''f2'', ''f3'', ''f4'', ''f5'', ''f6'', ''f7'', ''f8'',
                                   ''f9'', ''f10'', ''f11'', ''f12''],
                       anchors = [\<lparr>anchor_id = ''old_unused'', anchor_description = ''d1'',
                                   isUsed = False, createdAtScene = 1\<rparr>,
                                  \<lparr>anchor_id = ''old_used'', anchor_description = ''d2'',
                                   isUsed = True, createdAtScene = 1\<rparr>,
                                  \<lparr>anchor_id = ''young_unused'', anchor_description = ''d3'',
                                   isUsed = False, createdAtScene = 2\<rparr>],
                       themes = None\<rparr>]
   \<and> cleanupStateCard_at
        [\<lparr>storySoFar = ''s'',
          keyFacts = [''f1'', ''f2'', ''f3'', ''f4'', ''f5'', ''f6'', ''f7'', ''f8'',
                      ''f9'', ''f10'', ''f11'', ''f12''],
          anchors = [\<lparr>anchor_id = ''old_unused'', anchor_description = ''d1'',
                      isUsed = False, createdAtScene = 1\<rparr>,
                     \<lparr>anchor_id = ''old_used'', anchor_description = ''d2'',
                      isUsed = True, createdAtScene = 1\<rparr>,
                     \<lparr>anchor_id = ''young_unused'', anchor_description = ''d3'',
                      isUsed = False, createdAtScene = 2\<rparr>],
          themes = None\<rparr>]
        0 9
     = Some (1,
        [\<lparr>storySoFar = ''s'',
          keyFacts = [''f1'', ''f2'', ''f3'', ''f4'', ''f5'', ''f6'', ''f7'', ''f8'',
                      ''f9'', ''f10'', ''f11'', ''f12''],
          anchors = [\<lparr>anchor_id = ''old_unused'', anchor_description = ''d1'',
                      isUsed = False, createdAtScene = 1\<rparr>,
                     \<lparr>anchor_id = ''old_used'', anchor_description = ''d2'',
                      isUsed = True, createdAtScene = 1\<rparr>,
                     \<lparr>anchor_id = ''young_unused'', anchor_description = ''d3'',
                      isUsed = False, createdAtScene = 2\<rparr>],
          themes = None\<rparr>,
         \<lparr>storySoFar = ''s'',
          keyFacts = [''f3'', ''f4'', ''f5'', ''f6'', ''f7'', ''f8'',
                      ''f9'', ''f10'', ''f11'', ''f12''],
          anchors = [\<lparr>anchor_id = ''old_used'', anchor_description = ''d2'',
                      isUsed = True, createdAtScene = 1\<rparr>,
                     \<lparr>anchor_id = ''young_unused'', anchor_description = ''d3'',
                      isUsed = False, createdAtScene = 2\<rparr>],
          themes = Some []\<rparr>])"
proof -
  let ?sc = "\<lparr>storySoFar = ''s'',
          keyFacts = [''f1'', ''f2'', ''f3'', ''f4'', ''f5'', ''f6'', ''f7'', ''f8'',
                      ''f9'', ''f10'', ''f11'', ''f12''],
          anchors = [\<lparr>anchor_id = ''old_unused'', anchor_description = ''d1'',
                      isUsed = False, createdAtScene = 1\<rparr>,
                     \<lparr>anchor_id = ''old_used'', anchor_description = ''d2'',
                      isUsed = True, createdAtScene = 1\<rparr>,
                     \<lparr>anchor_id = ''young_unused'', anchor_description = ''d3'',
                      isUsed = False, createdAtScene = 2\<rparr>],
          themes = None\<rparr>"
  have h: "(0::nat) < length [?sc]" by simp
  have run: "cleanupStateCard_at [?sc] 0 9 =
      Some (1, [?sc, \<lparr>storySoFar = ''s'',
                      keyFacts = [''f3'', ''f4'', ''f5'', ''f6'', ''f7'', ''f8'',
                                  ''f9'', ''f10'', ''f11'', ''f12''],
                      anchors = [\<lparr>anchor_id = ''old_used'', anchor_description = ''d2'',
                                  isUsed = True, createdAtScene = 1\<rparr>,
                                 \<lparr>anchor_id = ''young_unused'', anchor_description = ''d3'',
                                  isUsed = False, createdAtScene = 2\<rparr>],
                      themes = Some []\<rparr>])"
    by (simp add: cleanupStateCard_at_def alloc_card_def cleanupStateCard_def Let_def
                  slice_last_def maxAgeScenes_def keyFactsCap_def)
  from cleanupStateCard_spec [OF h, of 9]
  have "\<exists>r' store'. cleanupStateCard_at [?sc] 0 9 = Some (r', store')"
    by blast
  with h run show ?thesis by simp
qed

text \<open>
  C8. Cleaning a card that was just cleaned, for the same scene number, changes nothing.
\<close>

theorem cleanupStateCard_idempotent:
  "cleanupStateCard (cleanupStateCard stateCard n) n = cleanupStateCard stateCard n"
  by (simp add: cleanupStateCard_def Let_def slice_last_idem)

section \<open>Properties of the anchor flag\<close>

lemma subseq_filter_map_mark:
  "subseq (filter isUsed xs)
          (filter isUsed (map (\<lambda>a. if anchor_id a = x then a\<lparr>isUsed := True\<rparr> else a) xs))"
proof (induction xs)
  case Nil
  then show ?case by simp
next
  case (Cons a xs)
  show ?case
  proof (cases "isUsed a")
    case True
    then have "a\<lparr>isUsed := True\<rparr> = a" by simp
    with True Cons show ?thesis by simp
  next
    case False
    with Cons show ?thesis by (auto intro: subseq_Cons')
  qed
qed

lemma apply_op_used_subseq:
  "subseq (filter isUsed (anchors sc)) (filter isUsed (anchors (apply_op sc op)))"
proof (cases op)
  case (MarkAnchorUsed x)
  then show ?thesis by (simp add: markAnchorAsUsed_def subseq_filter_map_mark)
next
  case (Cleanup n)
  have "filter isUsed (anchors (cleanupStateCard sc n)) = filter isUsed (anchors sc)"
    by (simp add: cleanupStateCard_def Let_def) (rule filter_cong, auto)
  with Cleanup show ?thesis by simp
qed

lemma run_ops_used_subseq:
  "subseq (filter isUsed (anchors sc)) (filter isUsed (anchors (run_ops sc ops)))"
  unfolding run_ops_def
proof (induction ops arbitrary: sc)
  case Nil
  then show ?case by simp
next
  case (Cons op ops)
  have "subseq (filter isUsed (anchors sc)) (filter isUsed (anchors (apply_op sc op)))"
    by (rule apply_op_used_subseq)
  also have "subseq \<dots> (filter isUsed (anchors (foldl apply_op (apply_op sc op) ops)))"
    by (rule Cons.IH)
  finally show ?case by simp
qed

lemma apply_op_origin:
  assumes "a' \<in> set (anchors (apply_op sc op))"
  shows "\<exists>a \<in> set (anchors sc). a' = a \<or> a' = a\<lparr>isUsed := True\<rparr>"
proof (cases op)
  case (MarkAnchorUsed x)
  with assms show ?thesis by (auto simp: markAnchorAsUsed_def)
next
  case (Cleanup n)
  with assms show ?thesis by (auto simp: cleanupStateCard_def Let_def)
qed

lemma run_ops_origin:
  assumes "a' \<in> set (anchors (run_ops sc ops))"
  shows "\<exists>a \<in> set (anchors sc). a' = a \<or> a' = a\<lparr>isUsed := True\<rparr>"
  using assms unfolding run_ops_def
proof (induction ops arbitrary: sc)
  case Nil
  then show ?case by auto
next
  case (Cons op ops)
  from Cons.IH [of "apply_op sc op"] Cons.prems
  obtain b where b: "b \<in> set (anchors (apply_op sc op))"
    and a': "a' = b \<or> a' = b\<lparr>isUsed := True\<rparr>" by auto
  from apply_op_origin [OF b] obtain a where a: "a \<in> set (anchors sc)"
    and ba: "b = a \<or> b = a\<lparr>isUsed := True\<rparr>" by auto
  from a' ba have "a' = a \<or> a' = a\<lparr>isUsed := True\<rparr>" by auto
  with a show ?case by blast
qed

lemma markAnchorAsUsed_pointwise:
  "list_all2 (\<lambda>a a'. a' = a \<or> (anchor_id a = x \<and> a' = a\<lparr>isUsed := True\<rparr>))
             (anchors sc) (anchors (markAnchorAsUsed sc x))"
  by (simp add: markAnchorAsUsed_def list_all2_map2 list_all2_same)

lemma cleanupStateCard_subseq: "subseq (anchors (cleanupStateCard sc n)) (anchors sc)"
  by (simp add: cleanupStateCard_def Let_def)

text \<open>
  C6, for the operations that work on the card itself. Through any sequence of
  \<^verbatim>\<open>markAnchorAsUsed\<close> and \<^verbatim>\<open>cleanupStateCard\<close>, the used anchors of the card stay
  in it, used and in order, and every anchor of the result is an anchor of the original
  card, as it was or with the flag raised. \<^verbatim>\<open>markAnchorAsUsed\<close> keeps every anchor at
  its position and at most raises the flag of the anchors with the given id;
  \<^verbatim>\<open>cleanupStateCard\<close> returns anchors of the card unchanged.
\<close>

theorem local_ops_keep_used:
  "subseq (filter isUsed (anchors sc)) (filter isUsed (anchors (run_ops sc ops)))
   \<and> (\<forall>a' \<in> set (anchors (run_ops sc ops)).
         \<exists>a \<in> set (anchors sc). a' = a \<or> a' = a\<lparr>isUsed := True\<rparr>)
   \<and> list_all2 (\<lambda>a a'. a' = a \<or> (anchor_id a = x \<and> a' = a\<lparr>isUsed := True\<rparr>))
                (anchors sc) (anchors (markAnchorAsUsed sc x))
   \<and> subseq (anchors (cleanupStateCard sc n)) (anchors sc)"
  using run_ops_used_subseq [of sc ops] run_ops_origin [of _ sc ops]
        markAnchorAsUsed_pointwise [of x sc] cleanupStateCard_subseq [of sc n]
  by blast

theorem local_ops_keep_used_witness:
  "run_ops
     \<lparr>storySoFar = ''s'', keyFacts = [],
      anchors = [\<lparr>anchor_id = ''key'', anchor_description = ''brass key'',
                  isUsed = False, createdAtScene = 1\<rparr>,
                 \<lparr>anchor_id = ''deal'', anchor_description = ''the deal'',
                  isUsed = True, createdAtScene = 0\<rparr>,
                 \<lparr>anchor_id = ''map'', anchor_description = ''torn map'',
                  isUsed = False, createdAtScene = 0\<rparr>],
      themes = None\<rparr>
     [MarkAnchorUsed ''key'', Cleanup 9, MarkAnchorUsed ''key'']
   = \<lparr>storySoFar = ''s'', keyFacts = [],
      anchors = [\<lparr>anchor_id = ''key'', anchor_description = ''brass key'',
                  isUsed = True, createdAtScene = 1\<rparr>,
                 \<lparr>anchor_id = ''deal'', anchor_description = ''the deal'',
                  isUsed = True, createdAtScene = 0\<rparr>],
      themes = Some []\<rparr>"
  (is "run_ops ?sc ?ops = ?res")
proof -
  have run: "run_ops ?sc ?ops = ?res"
    by (simp add: run_ops_def markAnchorAsUsed_def cleanupStateCard_def Let_def
                  slice_last_def maxAgeScenes_def keyFactsCap_def)
  from local_ops_keep_used [of ?sc ?ops "''key''" 9]
  have "subseq (filter isUsed (anchors ?sc)) (filter isUsed (anchors (run_ops ?sc ?ops)))"
    by blast
  with run show ?thesis by simp
qed

text \<open>
  \<^verbatim>\<open>updateStateCard\<close> returns the anchors of the generated object as they are. A
  response that lists a used anchor of the current card as unused is accepted by the
  schema, and the card returned has the flag back at false.
\<close>

theorem updateStateCard_resets_used:
  "updateStateCard
     \<lparr>storySoFar = ''We found the key.'', keyFacts = [''key found''],
      anchors = [\<lparr>anchor_id = ''key'', anchor_description = ''brass key'',
                  isUsed = True, createdAtScene = 1\<rparr>],
      themes = Some []\<rparr>
     \<lparr>scene_id = ''s2'', episodeId = ''e1'', sceneNumber = 2, narration = ''The cellar.'',
      choiceA = ''Go down'', choiceB = ''Stay'', chosenOption = Some A,
      stateUpdate = [], audioCues = [], createdAt = ''t''\<rparr>
     A []
     (Inr \<lparr>upd_storySoFar = ''We went down to the cellar.'',
           upd_keyFacts = [''key found'', ''in the cellar''],
           upd_anchors = [\<lparr>anchor_id = ''key'', anchor_description = ''brass key'',
                           isUsed = False, createdAtScene = 1\<rparr>],
           upd_reasoning = ''moved on''\<rparr>)
   = Inr \<lparr>storySoFar = ''We went down to the cellar.'',
          keyFacts = [''key found'', ''in the cellar''],
          anchors = [\<lparr>anchor_id = ''key'', anchor_description = ''brass key'',
                      isUsed = False, createdAtScene = 1\<rparr>],
          themes = Some []\<rparr>"
  by (simp add: updateStateCard_def generateObject_def)

section \<open>Properties of the audio directors\<close>

lemma generateObject_Inr:
  "generateObject schema response = Inr obj \<Longrightarrow> \<exists>raw. response = Inr raw \<and> schema raw = Some obj"
  by (auto simp: generateObject_def split: sum.splits option.splits)

lemma generateSceneMusic_duration:
  assumes "generateSceneMusic bible narr n est response = Inr cue"
  shows "10000 \<le> durationMs (music_metadata cue) \<and> durationMs (music_metadata cue) \<le> 300000"
  using assms
  by (auto simp: generateSceneMusic_def generateObject_def MusicTrackSchema_def
           split: sum.splits option.splits if_splits)

text \<open>
  C9. The schema bounds the duration and nothing else: a response whose track is not
  flagged instrumental, and whose prompt never says \<open>instrumental only\<close>, conforms to
  the schema, and \<^verbatim>\<open>generateSceneMusic\<close> hands both on as they came. The repository's
  test expects the flag to be true and the prompt to contain the marker.
\<close>

theorem generateSceneMusic_vocal_track:
  "generateSceneMusic bible narr n est
     (Inr \<lparr>track_prompt = ''slow string quartet, 70 BPM, in A minor, with a solo soprano'',
           track_duration = 60000, track_isInstrumental = False, track_priority = medium,
           track_trigger = ''[MUSIC=scene]'', track_description = ''strings and voice''\<rparr>)
   = Inr \<lparr>cue_type = music, trigger = ''[MUSIC=scene]'', description = ''strings and voice'',
          timing = Some 0,
          music_metadata =
            \<lparr>elevenLabsPrompt = ''slow string quartet, 70 BPM, in A minor, with a solo soprano'',
             durationMs = 60000, isInstrumental = False, music_priority = medium,
             music_agent = ''MusicAgent'', music_sceneNumber = n,
             estimatedDurationSeconds = est\<rparr>\<rparr>
   \<and> \<not> str_includes ''slow string quartet, 70 BPM, in A minor, with a solo soprano''
                  instrumental_marker"
  by (simp add: generateSceneMusic_def generateObject_def MusicTrackSchema_def
                instrumental_marker_def)

lemma SFXSchema_Some:
  assumes "SFXSchema rs = Some fxs"
  shows "length fxs \<le> 8"
    and "fx \<in> set fxs \<Longrightarrow> fx_durationSeconds fx = Some d \<Longrightarrow> 1 / 2 \<le> d \<and> d \<le> 30"
    and "fx \<in> set fxs \<Longrightarrow> 0 \<le> fx_promptInfluence fx \<and> fx_promptInfluence fx \<le> 1"
proof -
  from assms have len: "length rs \<le> 8" and ok: "list_all soundEffect_ok rs"
    and fxs: "fxs = map soundEffect_parse rs"
    by (auto simp: SFXSchema_def split: if_splits)
  show "length fxs \<le> 8" using len fxs by simp
  {
    assume "fx \<in> set fxs"
    then obtain r where r: "r \<in> set rs" and fx: "fx = soundEffect_parse r"
      using fxs by auto
    from ok r have okr: "soundEffect_ok r" by (simp add: list_all_iff)
    {
      assume "fx_durationSeconds fx = Some d"
      with fx okr show "1 / 2 \<le> d \<and> d \<le> 30"
        by (simp add: soundEffect_parse_def soundEffect_ok_def)
    }
    from fx okr show "0 \<le> fx_promptInfluence fx \<and> fx_promptInfluence fx \<le> 1"
      by (cases "r_promptInfluence r") (simp_all add: soundEffect_parse_def soundEffect_ok_def)
  }
qed

text \<open>
  C10. A batch returned by \<^verbatim>\<open>generateSceneSFX\<close> has at most 8 cues; a cue that
  specifies a duration has it in [0.5, 30], and every cue's prompt influence is in
  [0, 1]. A cue returned by \<^verbatim>\<open>generateAmbientSoundscape\<close> loops and lasts 15 to 30
  seconds.
\<close>

theorem sfx_bounds:
  "(generateSceneSFX bible narr n response = Inr cues \<longrightarrow>
      length cues \<le> 8
      \<and> (\<forall>cue \<in> set cues.
            cue_type cue = sfx
          \<and> (\<forall>d. durationSeconds (sfx_metadata cue) = Some d \<longrightarrow> 1 / 2 \<le> d \<and> d \<le> 30)
          \<and> 0 \<le> promptInfluence (sfx_metadata cue)
          \<and> promptInfluence (sfx_metadata cue) \<le> 1))
   \<and> (generateAmbientSoundscape bible location atmosphere aresponse = Inr acue \<longrightarrow>
        cue_type acue = sfx
      \<and> loop (sfx_metadata acue)
      \<and> (\<exists>d. durationSeconds (sfx_metadata acue) = Some d \<and> 15 \<le> d \<and> d \<le> 30))"
proof (intro conjI impI)
  assume run: "generateSceneSFX bible narr n response = Inr cues"
  then obtain fxs where gen: "generateObject SFXSchema response = Inr fxs"
    and cues: "cues = map (\<lambda>fx.
                 \<lparr>cue_type = sfx, trigger = fx_trigger fx, description = fx_text fx,
                  timing = Some (fx_timing fx),
                  sfx_metadata =
                    \<lparr>elevenLabsText = fx_text fx, durationSeconds = fx_durationSeconds fx,
                     promptInfluence = fx_promptInfluence fx, loop = fx_loop fx,
                     sfx_priority = fx_priority fx, category = fx_category fx,
                     sfx_agent = ''SFXAgent'', sfx_sceneNumber = Some n,
                     isAmbient = None\<rparr>\<rparr>) fxs"
    by (auto simp: generateSceneSFX_def split: sum.splits)
  from generateObject_Inr [OF gen] obtain rs where schema: "SFXSchema rs = Some fxs"
    by blast
  show "length cues \<le> 8"
    using SFXSchema_Some(1) [OF schema] cues by simp
  show "\<forall>cue \<in> set cues.
            cue_type cue = sfx
          \<and> (\<forall>d. durationSeconds (sfx_metadata cue) = Some d \<longrightarrow> 1 / 2 \<le> d \<and> d \<le> 30)
          \<and> 0 \<le> promptInfluence (sfx_metadata cue)
          \<and> promptInfluence (sfx_metadata cue) \<le> 1"
  proof
    fix cue assume "cue \<in> set cues"
    then obtain fx where fx: "fx \<in> set fxs"
      and cue: "sfx_metadata cue =
                    \<lparr>elevenLabsText = fx_text fx, durationSeconds = fx_durationSeconds fx,
                     promptInfluence = fx_promptInfluence fx, loop = fx_loop fx,
                     sfx_priority = fx_priority fx, category = fx_category fx,
                     sfx_agent = ''SFXAgent'', sfx_sceneNumber = Some n,
                     isAmbient = None\<rparr>"
      and ty: "cue_type cue = sfx"
      using cues by auto
    show "cue_type cue = sfx
          \<and> (\<forall>d. durationSeconds (sfx_metadata cue) = Some d \<longrightarrow> 1 / 2 \<le> d \<and> d \<le> 30)
          \<and> 0 \<le> promptInfluence (sfx_metadata cue)
          \<and> promptInfluence (sfx_metadata cue) \<le> 1"
      using ty SFXSchema_Some(2) [OF schema fx] SFXSchema_Some(3) [OF schema fx]
      by (simp add: cue)
  qed
next
  assume run: "generateAmbientSoundscape bible location atmosphere aresponse = Inr acue"
  then show "cue_type acue = sfx" and "loop (sfx_metadata acue)"
    and "\<exists>d. durationSeconds (sfx_metadata acue) = Some d \<and> 15 \<le> d \<and> d \<le> 30"
    by (auto simp: generateAmbientSoundscape_def generateObject_def AmbientSchema_def
             split: sum.splits option.splits if_splits)
qed

theorem sfx_bounds_witness:
  "generateSceneSFX mansion_bible ''The door creaks open as thunder rolls.'' 1
     (Inr [\<lparr>r_text = ''Heavy wooden door creaking open'', r_trigger = ''[SFX=door_creak]'',
            r_durationSeconds = Some (3 / 2), r_promptInfluence = None, r_loop = None,
            r_timing = 2, r_priority = high, r_category = simple\<rparr>,
           \<lparr>r_text = ''Distant thunder, low rumble, ambience'', r_trigger = ''[SFX=thunder]'',
            r_durationSeconds = None, r_promptInfluence = Some (1 / 2), r_loop = Some True,
            r_timing = 0, r_priority = low, r_category = ambient\<rparr>])
   = Inr [\<lparr>cue_type = sfx, trigger = ''[SFX=door_creak]'',
           description = ''Heavy wooden door creaking open'', timing = Some 2,
           sfx_metadata =
             \<lparr>elevenLabsText = ''Heavy wooden door creaking open'',
              durationSeconds = Some (3 / 2), promptInfluence = 3 / 10, loop = False,
              sfx_priority = high, category = simple, sfx_agent = ''SFXAgent'',
              sfx_sceneNumber = Some 1, isAmbient = None\<rparr>\<rparr>,
          \<lparr>cue_type = sfx, trigger = ''[SFX=thunder]'',
           description = ''Distant thunder, low rumble, ambience'', timing = Some 0,
           sfx_metadata =
             \<lparr>elevenLabsText = ''Distant thunder, low rumble, ambience'',
              durationSeconds = None, promptInfluence = 1 / 2, loop = True,
              sfx_priority = low, category = ambient, sfx_agent = ''SFXAgent'',
              sfx_sceneNumber = Some 1, isAmbient = None\<rparr>\<rparr>]
   \<and> generateAmbientSoundscape mansion_bible ''Victorian mansion interior'' ''stormy night''
       (Inr \<lparr>amb_r_text = ''Old house ambience, wind drone'', amb_r_durationSeconds = 20,
             amb_r_promptInfluence = None\<rparr>)
     = Inr \<lparr>cue_type = sfx, trigger = ''[SFX=ambient_background]'',
            description = ''Old house ambience, wind drone'', timing = Some 0,
            sfx_metadata =
              \<lparr>elevenLabsText = ''Old house ambience, wind drone'',
               durationSeconds = Some 20, promptInfluence = 2 / 10, loop = True,
               sfx_priority = low, category = ambient, sfx_agent = ''SFXAgent'',
               sfx_sceneNumber = None, isAmbient = Some True\<rparr>\<rparr>"
  (is "?run1 \<and> ?run2")
proof -
  have r1: ?run1
    by (simp add: generateSceneSFX_def generateObject_def SFXSchema_def soundEffect_ok_def
                  soundEffect_parse_def)
  have r2: ?run2
    by (simp add: generateAmbientSoundscape_def generateObject_def AmbientSchema_def)
  note b = sfx_bounds [of mansion_bible "''The door creaks open as thunder rolls.''" 1 _ _
                          "''Victorian mansion interior''" "''stormy night''"]
  from b r1 r2 show ?thesis by blast
qed

section \<open>Properties of speculative child generation\<close>

text \<open>
  C2. The call that \<^verbatim>\<open>coordinateChildScenario\<close> makes passes four values where
  \<^verbatim>\<open>generateScene\<close> has five parameters: the parameter \<^verbatim>\<open>episodeBible\<close> receives the
  projected State Card, never a Bible, and \<^verbatim>\<open>stateCard\<close> receives the scene number.
  With the Scene Planner of the repository the call throws while it builds the prompt,
  whatever the provider would have answered.
\<close>

theorem coordinateChildScenario_passes_no_bible:
  "call_episodeBible (childScenarioCall premise stateCard parentScene c callbackSuggestion)
     = Card (projectStateForChoice stateCard parentScene c)
   \<and> call_episodeBible (childScenarioCall premise stateCard parentScene c callbackSuggestion)
       \<noteq> Bible bible
   \<and> call_stateCard (childScenarioCall premise stateCard parentScene c callbackSuggestion)
       = Num (sceneNumber parentScene + 1)
   \<and> coordinateChildScenario
        (agents\<lparr>scenePlanner_generateScene := (\<lambda>call. generateScene call (provider call))\<rparr>)
        clock premise stateCard parentScene c callbackSuggestion
       = Inl (TypeError ''join'')"
  by (simp add: childScenarioCall_def coordinateChildScenario_def generateScene_def Let_def)

text \<open>
  \<^verbatim>\<open>coordinateChildGeneration\<close> assigns \<^verbatim>\<open>optionA\<close> and \<^verbatim>\<open>optionB\<close> in two
  statements that follow the \<^verbatim>\<open>await Promise.all\<close> of both branch generations, and has
  no \<^verbatim>\<open>catch\<close>: it returns with both candidates written, or it throws and the
  orchestrator is as it was before the call.
\<close>

lemma coordinateChildGeneration_both_or_none:
  "(isl (fst (coordinateChildGeneration agents clocks orch premise stateCard parentScene))
      \<and> snd (coordinateChildGeneration agents clocks orch premise stateCard parentScene) = orch)
   \<or> (\<exists>cb a b.
         continuityAgent_analyzeCallbacks agents stateCard (upcomingContext parentScene) = Inr cb
       \<and> coordinateChildScenario agents (clocks A) premise stateCard parentScene A cb = Inr a
       \<and> coordinateChildScenario agents (clocks B) premise stateCard parentScene B cb = Inr b
       \<and> coordinateChildGeneration agents clocks orch premise stateCard parentScene
           = (Inr (), orch\<lparr>scenarioWindow :=
                             (scenarioWindow orch)\<lparr>optionA := Some a, optionB := Some b\<rparr>\<rparr>))"
  by (auto simp: coordinateChildGeneration_def promise_all2_def split: sum.splits)
section \<open>Properties of processChoice\<close>

lemma execute_tool_window:
  "scenarioWindow (fst (snd (execute_tool operation agents ev s))) = scenarioWindow (fst s)"
  by (cases ev; cases s)
     (auto simp: storeEpisodeBible_def split: sum.splits prod.splits)

lemma run_tools_window:
  "scenarioWindow (fst (snd (run_tools operation agents evs s))) = scenarioWindow (fst s)"
proof (induction evs arbitrary: s)
  case Nil
  then show ?case by simp
next
  case (Cons ev evs)
  show ?case
  proof (cases "offered operation ev")
    case False
    with Cons show ?thesis by simp
  next
    case True
    have "scenarioWindow (fst (snd (run_tools operation agents (ev # evs) s)))
          = scenarioWindow (fst (snd (run_tools operation agents evs
                                        (snd (execute_tool operation agents ev s)))))"
      using True by (simp split: prod.splits)
    also have "\<dots> = scenarioWindow (fst (snd (execute_tool operation agents ev s)))"
      by (rule Cons.IH)
    also have "\<dots> = scenarioWindow (fst s)"
      by (rule execute_tool_window)
    finally show ?thesis .
  qed
qed

lemma generateText_state:
  "snd (generateText operation agents orchestration s)
     = snd (run_tools operation agents (tool_events orchestration) s)"
  by (simp add: generateText_def split: prod.splits option.splits)

lemma generateText_window:
  "scenarioWindow (fst (snd (generateText operation agents orchestration s)))
     = scenarioWindow (fst s)"
  by (simp add: generateText_state run_tools_window)

lemma generateText_result:
  "fst (generateText operation agents orchestration s) =
     (case rejection orchestration of
        Some e \<Rightarrow> Inl e
      | None \<Rightarrow> Inr (fst (run_tools operation agents (tool_events orchestration) s)))"
  by (simp add: generateText_def split: prod.splits option.splits)

lemma execute_tool_episodes:
  "\<not> writes_episodes ev \<Longrightarrow>
     episodes (snd (snd (execute_tool operation agents ev s))) = episodes (snd s)"
  by (cases ev; cases s)
     (auto simp: saveEpisodeBible_def upsert_episode_bible_def split: sum.splits prod.splits)

lemma run_tools_episodes:
  "list_all (\<lambda>ev. \<not> writes_episodes ev) evs \<Longrightarrow>
     episodes (snd (snd (run_tools operation agents evs s))) = episodes (snd s)"
proof (induction evs arbitrary: s)
  case Nil
  then show ?case by simp
next
  case (Cons ev evs)
  from Cons.prems have ev: "\<not> writes_episodes ev"
    and evs: "list_all (\<lambda>ev. \<not> writes_episodes ev) evs" by simp_all
  show ?case
  proof (cases "offered operation ev")
    case False
    with Cons.IH [OF evs] show ?thesis by simp
  next
    case True
    have "episodes (snd (snd (run_tools operation agents (ev # evs) s)))
          = episodes (snd (snd (run_tools operation agents evs
                                  (snd (execute_tool operation agents ev s)))))"
      using True by (simp split: prod.splits)
    also have "\<dots> = episodes (snd (snd (execute_tool operation agents ev s)))"
      by (rule Cons.IH [OF evs])
    also have "\<dots> = episodes (snd s)"
      by (rule execute_tool_episodes [OF ev])
    finally show ?thesis .
  qed
qed

text \<open>
  C4. \<^verbatim>\<open>processChoice\<close> for a choice whose candidate is not in the window. The
  orchestration step runs first; when it rejects, the method fails with that rejection,
  and otherwise with the error \<open>No pre-generated scenario available for choice\<close>. In
  both cases the method returns no scene and stores none: the orchestrator and the
  database are as the orchestration step left them, the window is the one before the
  call, and the \<^verbatim>\<open>episodes\<close> table, with the status, is unchanged when the language model called
  neither \<^verbatim>\<open>saveEpisode\<close> nor \<^verbatim>\<open>updateEpisodeStats\<close> during the step.
\<close>

theorem processChoice_absent_candidate:
  assumes "(if c = A then optionA (scenarioWindow orch) else optionB (scenarioWindow orch)) = None"
  shows "fst (processChoice agents clocks orchestration (orch, db) episode_id c user_id) =
           (case rejection orchestration of
              Some e \<Rightarrow> Inl e
            | None \<Rightarrow> Inl (Error ''No pre-generated scenario available for choice''))
       \<and> snd (processChoice agents clocks orchestration (orch, db) episode_id c user_id) =
           snd (generateText ProcessChoice agents orchestration (orch, db))
       \<and> scenarioWindow (fst (snd (processChoice agents clocks orchestration (orch, db)
                                     episode_id c user_id))) = scenarioWindow orch
       \<and> (list_all (\<lambda>ev. \<not> writes_episodes ev) (tool_events orchestration) \<longrightarrow>
            episodes (snd (snd (processChoice agents clocks orchestration (orch, db)
                                  episode_id c user_id))) = episodes db)"
proof -
  obtain r orch' db' where gt: "generateText ProcessChoice agents orchestration (orch, db) = (r, orch', db')"
    by (cases "generateText ProcessChoice agents orchestration (orch, db)") auto
  from generateText_window [of ProcessChoice agents orchestration "(orch, db)"] gt
  have w: "scenarioWindow orch' = scenarioWindow orch" by simp
  from gt generateText_result [of ProcessChoice agents orchestration "(orch, db)"]
  have r: "r = (case rejection orchestration of
        Some e \<Rightarrow> Inl e
      | None \<Rightarrow> Inr (fst (run_tools ProcessChoice agents (tool_events orchestration) (orch, db))))"
    by simp
  have main: "fst (processChoice agents clocks orchestration (orch, db) episode_id c user_id) =
           (case rejection orchestration of
              Some e \<Rightarrow> Inl e
            | None \<Rightarrow> Inl (Error ''No pre-generated scenario available for choice''))
       \<and> snd (processChoice agents clocks orchestration (orch, db) episode_id c user_id) =
           (orch', db')"
  proof (cases "rejection orchestration")
    case None
    with r obtain calls where "r = Inr calls" by simp
    with gt w assms show ?thesis
      by (simp add: processChoice_def None split: if_splits)
  next
    case (Some e)
    with r have "r = Inl e" by simp
    with gt w assms show ?thesis
      by (simp add: processChoice_def Some)
  qed
  have st: "snd (run_tools ProcessChoice agents (tool_events orchestration) (orch, db))
              = (orch', db')"
    using generateText_state [of ProcessChoice agents orchestration "(orch, db)"] gt
    by simp
  have eps: "episodes db' = episodes db"
    if "list_all (\<lambda>ev. \<not> writes_episodes ev) (tool_events orchestration)"
    using run_tools_episodes [OF that, of ProcessChoice agents "(orch, db)"]
    by (simp add: st)
  from main gt w eps show ?thesis by simp
qed

theorem processChoice_absent_candidate_witness:
  "(if A = A then optionA (scenarioWindow orchestrator_only_B)
    else optionB (scenarioWindow orchestrator_only_B)) = None
   \<and> processChoice (scripted_agents planner_succeeding) fixed_clock
        \<lparr>tool_events = [DelegateToStateAgent_update hall_card door_scene A []],
         rejection = None\<rparr>
        (orchestrator_only_B, one_episode_db) ''e1'' A ''user''
     = (Inl (Error ''No pre-generated scenario available for choice''),
        orchestrator_only_B, one_episode_db)
   \<and> (if B = A then optionA (scenarioWindow empty_orchestrator)
      else optionB (scenarioWindow empty_orchestrator)) = None
   \<and> processChoice (scripted_agents planner_succeeding) fixed_clock
        \<lparr>tool_events = [DelegateToStateAgent_update hall_card door_scene B []],
         rejection = None\<rparr>
        (empty_orchestrator, one_episode_db) ''e1'' B ''user''
     = (Inl (Error ''No pre-generated scenario available for choice''),
        empty_orchestrator, one_episode_db)"
  (is "?absent \<and> ?run \<and> ?absent' \<and> ?run'")
proof -
  have absent: ?absent by (simp add: orchestrator_only_B_def)
  have absent': ?absent' by (simp add: empty_orchestrator_def)
  have gt': "generateText ProcessChoice (scripted_agents planner_succeeding)
              \<lparr>tool_events = [DelegateToStateAgent_update hall_card door_scene B []],
               rejection = None\<rparr>
              (empty_orchestrator, one_episode_db)
            = (Inr [\<lparr>toolName = ''delegateToStateAgent'',
                     result = Some (StateUpdateResult hall_card)\<rparr>],
               empty_orchestrator, one_episode_db)"
    by (simp add: generateText_def offered_def scripted_agents_def)
  note t' = processChoice_absent_candidate
             [OF absent', of "scripted_agents planner_succeeding" fixed_clock
                 "\<lparr>tool_events = [DelegateToStateAgent_update hall_card door_scene B []],
                   rejection = None\<rparr>" one_episode_db "''e1''" "''user''"]
  from t' gt' have run': ?run'
    by (simp add: prod_eq_iff)
  have gt: "generateText ProcessChoice (scripted_agents planner_succeeding)
              \<lparr>tool_events = [DelegateToStateAgent_update hall_card door_scene A []],
               rejection = None\<rparr>
              (orchestrator_only_B, one_episode_db)
            = (Inr [\<lparr>toolName = ''delegateToStateAgent'',
                     result = Some (StateUpdateResult hall_card)\<rparr>],
               orchestrator_only_B, one_episode_db)"
    by (simp add: generateText_def offered_def scripted_agents_def)
  note t = processChoice_absent_candidate
             [OF absent, of "scripted_agents planner_succeeding" fixed_clock
                 "\<lparr>tool_events = [DelegateToStateAgent_update hall_card door_scene A []],
                   rejection = None\<rparr>" one_episode_db "''e1''" "''user''"]
  from t gt have run: ?run
    by (simp add: prod_eq_iff)
  from absent run absent' run' show ?thesis by blast
qed

text \<open>
  Two runs of \<^verbatim>\<open>processChoice\<close> for choice A on a window that holds the candidate of
  choice B only. In the first the orchestration step is rejected by the provider, and
  the method fails with that rejection. In the second the language model calls
  \<^verbatim>\<open>updateEpisodeStats\<close> with the status \<^verbatim>\<open>completed\<close> during the step: the method
  fails for the missing candidate, and the episode, active before the call, is completed
  after it. The same two runs on a new orchestrator, whose window is empty, end the
  same way.
\<close>

theorem processChoice_other_error_and_status:
  "fst (processChoice (scripted_agents planner_succeeding) fixed_clock
          \<lparr>tool_events = [], rejection = Some (ProviderFailure ''rate limit'')\<rparr>
          (orchestrator_only_B, one_episode_db) ''e1'' A ''user'')
     = Inl (ProviderFailure ''rate limit'')
   \<and> map status (episodes one_episode_db) = [active]
   \<and> fst (processChoice (scripted_agents planner_succeeding) fixed_clock
          \<lparr>tool_events = [UpdateEpisodeStats ''e1'' 1 1 (Some completed)
                             ''2023-11-14T22:20:00.000Z''],
           rejection = None\<rparr>
          (orchestrator_only_B, one_episode_db) ''e1'' A ''user'')
     = Inl (Error ''No pre-generated scenario available for choice'')
   \<and> map status (episodes (snd (snd
        (processChoice (scripted_agents planner_succeeding) fixed_clock
          \<lparr>tool_events = [UpdateEpisodeStats ''e1'' 1 1 (Some completed)
                             ''2023-11-14T22:20:00.000Z''],
           rejection = None\<rparr>
          (orchestrator_only_B, one_episode_db) ''e1'' A ''user''))))
     = [completed]
   \<and> fst (processChoice (scripted_agents planner_succeeding) fixed_clock
          \<lparr>tool_events = [], rejection = Some (ProviderFailure ''rate limit'')\<rparr>
          (empty_orchestrator, one_episode_db) ''e1'' A ''user'')
     = Inl (ProviderFailure ''rate limit'')
   \<and> fst (processChoice (scripted_agents planner_succeeding) fixed_clock
          \<lparr>tool_events = [UpdateEpisodeStats ''e1'' 1 1 (Some completed)
                             ''2023-11-14T22:20:00.000Z''],
           rejection = None\<rparr>
          (empty_orchestrator, one_episode_db) ''e1'' A ''user'')
     = Inl (Error ''No pre-generated scenario available for choice'')
   \<and> map status (episodes (snd (snd
        (processChoice (scripted_agents planner_succeeding) fixed_clock
          \<lparr>tool_events = [UpdateEpisodeStats ''e1'' 1 1 (Some completed)
                             ''2023-11-14T22:20:00.000Z''],
           rejection = None\<rparr>
          (empty_orchestrator, one_episode_db) ''e1'' A ''user''))))
     = [completed]"
  by (simp add: processChoice_def generateText_def offered_def orchestrator_only_B_def
                empty_orchestrator_def one_episode_db_def mansion_episode_def
                updateEpisodeStats_def select_single_def Let_def)

section \<open>Properties of startEpisode\<close>

lemma bibles_differ: "lighthouse_bible \<noteq> mansion_bible"
proof
  assume "lighthouse_bible = mansion_bible"
  then have "reasoning lighthouse_bible = reasoning mansion_bible" by simp
  then show False by (simp add: lighthouse_bible_def mansion_bible_def)
qed

lemma coordinateChildGeneration_bible:
  "episodeBible (snd (coordinateChildGeneration agents clocks orch premise stateCard parent))
     = episodeBible orch"
  by (simp add: coordinateChildGeneration_def split: sum.splits prod.splits)

lemma coordinateChildGeneration_bibleD:
  "coordinateChildGeneration agents clocks orch premise stateCard parent = (r, orch')
     \<Longrightarrow> episodeBible orch' = episodeBible orch"
  using coordinateChildGeneration_bible [of agents clocks orch premise stateCard parent]
  by simp

lemma startEpisode_bible:
  "episodeBible (fst (snd (startEpisode agents clock clocks orchestration s a u t premise)))
     = episodeBible (fst (snd (generateText StartEpisode agents orchestration s)))"
proof -
  obtain r orch db where gt: "generateText StartEpisode agents orchestration s = (r, orch, db)"
    by (cases "generateText StartEpisode agents orchestration s") auto
  show ?thesis
    unfolding startEpisode_def gt
    by (auto simp: Let_def split: sum.splits option.splits prod.splits
             dest!: coordinateChildGeneration_bibleD)
qed

lemma startEpisode_database:
  "snd (snd (startEpisode agents clock clocks orchestration s a u t premise))
     = snd (snd (generateText StartEpisode agents orchestration s))"
proof -
  obtain r orch db where gt: "generateText StartEpisode agents orchestration s = (r, orch, db)"
    by (cases "generateText StartEpisode agents orchestration s") auto
  show ?thesis
    unfolding startEpisode_def gt
    by (auto simp: Let_def split: sum.splits option.splits prod.splits)
qed


lemma first_tools_state:
  "snd (run_tools StartEpisode (scripted_agents planner) (tool_events first_orchestration)
          (empty_orchestrator, one_episode_db))
   = (empty_orchestrator\<lparr>episodeBible := Some mansion_bible\<rparr>,
      \<lparr>episodes = [mansion_episode],
       episode_bibles = [bible_to_row ''b1'' ''e1'' mansion_bible]\<rparr>)"
  by (simp add: first_orchestration_def offered_def scripted_agents_def
                checkEpisodeBibleExists_def select_single_def one_episode_db_def
                storeEpisodeBible_def saveEpisodeBible_def upsert_episode_bible_def
                bible_to_row_def mansion_episode_def saveEpisode_def mansion_input_def Let_def
           split: sum.splits)

lemma second_tools_state:
  "snd (run_tools StartEpisode
          ((scripted_agents planner)
             \<lparr>storyDirector_createEpisodeBible := (\<lambda>premise. Inr lighthouse_bible)\<rparr>)
          (tool_events second_orchestration)
          (orch,
           \<lparr>episodes = [mansion_episode],
            episode_bibles = [bible_to_row ''b1'' ''e1'' mansion_bible]\<rparr>))
   = (orch\<lparr>episodeBible := Some lighthouse_bible\<rparr>,
      \<lparr>episodes = [mansion_episode],
       episode_bibles = [bible_to_row ''b1'' ''e1'' mansion_bible]\<rparr>)"
  by (simp add: second_orchestration_def offered_def scripted_agents_def
                select_single_def storeEpisodeBible_def saveEpisodeBible_def
                upsert_episode_bible_def bible_to_row_def mansion_episode_def saveEpisode_def
                mansion_input_def Let_def
           split: sum.splits)

lemma delegateToStoryDirector_unguarded:
  "storyDirector_createEpisodeBible agents premise = Inr bible \<Longrightarrow>
     execute_tool operation agents (DelegateToStoryDirector premise) (orch, db)
       = (Some (DirectorResult bible), orch\<lparr>episodeBible := Some bible\<rparr>, db)"
  by (simp add: storeEpisodeBible_def)

text \<open>
  C1. Two calls of \<^verbatim>\<open>startEpisode\<close> for the same episode, with any scene planner.
  The first creates a Bible, keeps it and saves it. In the second the language model calls the
  Story Director tool again: the tool creates a second Bible and puts it in place of the
  first in the orchestrator, and the save of the second is refused by the table. After
  it the orchestrator holds a Bible that is not the one in the database. Nothing in
  \<^verbatim>\<open>startEpisode\<close> or in the tool looks whether a Bible exists; the check is an
  instruction in the prompt to the language model.
\<close>

theorem second_start_creates_second_bible:
  "episodeBible (fst (snd (first_start planner))) = Some mansion_bible
   \<and> map row_to_bible (episode_bibles (snd (snd (first_start planner)))) = [mansion_bible]
   \<and> episodeBible (fst (snd (second_start planner))) = Some lighthouse_bible
   \<and> map row_to_bible (episode_bibles (snd (snd (second_start planner)))) = [mansion_bible]
   \<and> lighthouse_bible \<noteq> mansion_bible"
proof -
  have s1: "snd (generateText StartEpisode (scripted_agents planner) first_orchestration
                   (empty_orchestrator, one_episode_db))
            = (empty_orchestrator\<lparr>episodeBible := Some mansion_bible\<rparr>,
               \<lparr>episodes = [mansion_episode],
                episode_bibles = [bible_to_row ''b1'' ''e1'' mansion_bible]\<rparr>)"
    by (simp only: generateText_state first_tools_state)
  have b1: "episodeBible (fst (snd (first_start planner))) = Some mansion_bible"
    unfolding first_start_def startEpisode_bible s1 by simp
  have d1: "snd (snd (first_start planner))
            = \<lparr>episodes = [mansion_episode],
               episode_bibles = [bible_to_row ''b1'' ''e1'' mansion_bible]\<rparr>"
    unfolding first_start_def startEpisode_database s1 by simp
  obtain orch1 where st1: "snd (first_start planner)
            = (orch1, \<lparr>episodes = [mansion_episode],
               episode_bibles = [bible_to_row ''b1'' ''e1'' mansion_bible]\<rparr>)"
    using d1 by (cases "snd (first_start planner)") auto
  have s2: "snd (generateText StartEpisode
                   ((scripted_agents planner)
                      \<lparr>storyDirector_createEpisodeBible := (\<lambda>premise. Inr lighthouse_bible)\<rparr>)
                   second_orchestration (snd (first_start planner)))
            = (orch1\<lparr>episodeBible := Some lighthouse_bible\<rparr>,
               \<lparr>episodes = [mansion_episode],
                episode_bibles = [bible_to_row ''b1'' ''e1'' mansion_bible]\<rparr>)"
    by (simp only: generateText_state st1 second_tools_state)
  have b2: "episodeBible (fst (snd (second_start planner))) = Some lighthouse_bible"
    unfolding second_start_def startEpisode_bible s2 by simp
  have d2: "snd (snd (second_start planner))
            = \<lparr>episodes = [mansion_episode],
               episode_bibles = [bible_to_row ''b1'' ''e1'' mansion_bible]\<rparr>"
    unfolding second_start_def startEpisode_database s2 by simp
  have row: "row_to_bible (bible_to_row ''b1'' ''e1'' mansion_bible) = mansion_bible"
    by (simp add: row_to_bible_def bible_to_row_def)
  show ?thesis
    using b1 b2 bibles_differ by (simp add: d1 d2 row)
qed

section \<open>What the missing Bible argument does to both operations\<close>

text \<open>
  With the Scene Planner of the repository every speculative generation throws while
  it builds its prompt (see C2), so \<^verbatim>\<open>coordinateChildGeneration\<close> rejects whatever
  the provider would answer, and stores no candidate: no branch generation succeeds, with
  the other failing or not. Both operations make that call before they return: neither
  \<^verbatim>\<open>startEpisode\<close> nor \<^verbatim>\<open>processChoice\<close> returns a result, for any orchestration,
  any state and any behaviour of the other workers.
\<close>

lemma repository_planner_child_fails:
  "coordinateChildScenario
     (agents\<lparr>scenePlanner_generateScene := (\<lambda>call. generateScene call (provider call))\<rparr>)
     clock premise stateCard parent c cb = Inl (TypeError ''join'')"
  by (simp add: childScenarioCall_def coordinateChildScenario_def generateScene_def Let_def)

lemma repository_planner_children_fail:
  "isl (fst (coordinateChildGeneration
     (agents\<lparr>scenePlanner_generateScene := (\<lambda>call. generateScene call (provider call))\<rparr>)
     clocks orch premise stateCard parent))"
  unfolding coordinateChildGeneration_def repository_planner_child_fails
  by (simp add: promise_all2_def split: sum.splits)

lemma repository_planner_stores_no_candidate:
  "snd (coordinateChildGeneration
     (agents\<lparr>scenePlanner_generateScene := (\<lambda>call. generateScene call (provider call))\<rparr>)
     clocks orch premise stateCard parent) = orch"
  unfolding coordinateChildGeneration_def repository_planner_child_fails
  by (simp add: promise_all2_def split: sum.splits)

lemma repository_planner_children_failD:
  "coordinateChildGeneration
     (agents\<lparr>scenePlanner_generateScene := (\<lambda>call. generateScene call (provider call))\<rparr>)
     clocks orch premise stateCard parent = (Inr u, orch') \<Longrightarrow> False"
  using repository_planner_children_fail
          [where agents = agents and provider = provider and clocks = clocks and orch = orch
             and premise = premise and stateCard = stateCard and parent = parent]
  by simp

lemma startEpisode_with_repository_planner:
  "isl (fst (startEpisode
     (agents\<lparr>scenePlanner_generateScene := (\<lambda>call. generateScene call (provider call))\<rparr>)
     clock clocks orchestration s a u t premise))"
  unfolding startEpisode_def
  by (auto simp: Let_def split: sum.splits option.splits prod.splits
           dest!: repository_planner_children_failD)

lemma processChoice_with_repository_planner:
  "isl (fst (processChoice
     (agents\<lparr>scenePlanner_generateScene := (\<lambda>call. generateScene call (provider call))\<rparr>)
     clocks orchestration s episode_id c user_id))"
  unfolding processChoice_def
  by (auto simp: Let_def split: sum.splits option.splits prod.splits
           dest!: repository_planner_children_failD)

end
